theory Spec2Isabelle
  imports Complex_Main "HOL-Library.Char_ord" "HOL-Library.List_Lexorder" "HOL-Library.Sublist"
begin

section \<open>Text: characters, case and whitespace\<close>

text \<open>
  Python strings are modelled as \<^typ>\<open>string\<close>, restricted to ASCII text: the
  character tests below are Python's \<^verbatim>\<open>str.isspace\<close>, \<^verbatim>\<open>str.upper\<close> and the
  regular-expression classes \<^verbatim>\<open>\s\<close>, \<^verbatim>\<open>\d\<close>, \<^verbatim>\<open>\w\<close> on code points below 128.
\<close>

definition ord :: "char \<Rightarrow> nat" where
  "ord c = of_char c"

definition is_upper :: "char \<Rightarrow> bool" where
  "is_upper c = (65 \<le> ord c \<and> ord c \<le> 90)"

definition is_lower :: "char \<Rightarrow> bool" where
  "is_lower c = (97 \<le> ord c \<and> ord c \<le> 122)"

definition is_digit :: "char \<Rightarrow> bool" where
  "is_digit c = (48 \<le> ord c \<and> ord c \<le> 57)"

text \<open>\<^verbatim>\<open>str.isspace\<close>: tab, newline, vertical tab, form feed, carriage return, the four
  separators 28..31 and the space.\<close>

definition is_space :: "char \<Rightarrow> bool" where
  "is_space c = ((9 \<le> ord c \<and> ord c \<le> 13) \<or> (28 \<le> ord c \<and> ord c \<le> 32))"

definition is_word :: "char \<Rightarrow> bool" where
  "is_word c = (is_upper c \<or> is_lower c \<or> is_digit c \<or> c = CHR ''_'')"

definition upper_char :: "char \<Rightarrow> char" where
  "upper_char c = (if is_lower c then char_of (ord c - 32) else c)"

definition lower_char :: "char \<Rightarrow> char" where
  "lower_char c = (if is_upper c then char_of (ord c + 32) else c)"

definition upper :: "string \<Rightarrow> string" where
  "upper s = map upper_char s"

definition lower :: "string \<Rightarrow> string" where
  "lower s = map lower_char s"

text \<open>\<^verbatim>\<open>s.strip()\<close>: whitespace removed at both ends.\<close>

definition strip :: "string \<Rightarrow> string" where
  "strip s = rev (dropWhile is_space (rev (dropWhile is_space s)))"

text \<open>\<^verbatim>\<open>sub in s\<close> for strings.\<close>

fun contains :: "string \<Rightarrow> string \<Rightarrow> bool" where
  "contains sub [] = (sub = [])"
| "contains sub (c # cs) = (prefix sub (c # cs) \<or> contains sub cs)"

section \<open>Regular expressions as Python's backtracking matcher runs them\<close>

text \<open>
  The two patterns of \<^verbatim>\<open>extract_truck_number_from_text\<close> use literals, character
  classes, greedy bounded repetition of a class, an optional group, alternation, one
  capture group and \<^verbatim>\<open>\b\<close>. The matcher returns every way a pattern can match at a
  position, in the order in which backtracking tries them; the match Python reports is
  the first one. A match state is the character before the position, the text that is
  left, and the text of group 1.
\<close>

datatype atom = Lit char | Rng char char | Spc | Dig

datatype regex =
    Eps
  | Cls "atom list"
  | Seq regex regex
  | Alt regex regex
  | Opt regex
  | Rep "atom list" nat "nat option"
  | Grp regex
  | WordB

type_synonym mstate = "char option \<times> string \<times> string option"

definition in_rng :: "char \<Rightarrow> char \<Rightarrow> char \<Rightarrow> bool" where
  "in_rng a b c = (ord a \<le> ord c \<and> ord c \<le> ord b)"

fun atom_match :: "bool \<Rightarrow> atom \<Rightarrow> char \<Rightarrow> bool" where
  "atom_match ic (Lit a) c = (if ic then lower_char c = lower_char a else c = a)"
| "atom_match ic (Rng a b) c =
     (in_rng a b c \<or> (ic \<and> (in_rng a b (lower_char c) \<or> in_rng a b (upper_char c))))"
| "atom_match ic Spc c = is_space c"
| "atom_match ic Dig c = is_digit c"

definition cls_match :: "bool \<Rightarrow> atom list \<Rightarrow> char \<Rightarrow> bool" where
  "cls_match ic as c = list_ex (\<lambda>a. atom_match ic a c) as"

definition word_at :: "char option \<Rightarrow> bool" where
  "word_at p = (case p of None \<Rightarrow> False | Some c \<Rightarrow> is_word c)"

fun rmatch :: "bool \<Rightarrow> regex \<Rightarrow> mstate \<Rightarrow> mstate list" where
  "rmatch ic Eps st = [st]"
| "rmatch ic (Cls as) (p, s, g) =
     (case s of [] \<Rightarrow> [] | c # cs \<Rightarrow> if cls_match ic as c then [(Some c, cs, g)] else [])"
| "rmatch ic (Seq r1 r2) st = concat (map (rmatch ic r2) (rmatch ic r1 st))"
| "rmatch ic (Alt r1 r2) st = rmatch ic r1 st @ rmatch ic r2 st"
| "rmatch ic (Opt r) st = rmatch ic r st @ [st]"
| "rmatch ic (Rep as lo hi) (p, s, g) =
     (let k = length (takeWhile (cls_match ic as) s);
          k' = (case hi of None \<Rightarrow> k | Some h \<Rightarrow> min k h)
      in map (\<lambda>j. (if j = 0 then p else Some (s ! (j - 1)), drop j s, g)) (rev [lo ..< Suc k']))"
| "rmatch ic (Grp r) (p, s, g) =
     map (\<lambda>(p', s', g'). (p', s', Some (take (length s - length s') s))) (rmatch ic r (p, s, g))"
| "rmatch ic WordB (p, s, g) =
     (if word_at p \<noteq> word_at (case s of [] \<Rightarrow> None | c # cs \<Rightarrow> Some c) then [(p, s, g)] else [])"

text \<open>\<^verbatim>\<open>re.search\<close>: the leftmost position with a match, and there the first match.\<close>

fun re_search :: "bool \<Rightarrow> regex \<Rightarrow> char option \<Rightarrow> string \<Rightarrow> mstate option" where
  "re_search ic r p [] = (case rmatch ic r (p, [], None) of [] \<Rightarrow> None | m # ms \<Rightarrow> Some m)"
| "re_search ic r p (c # cs) =
     (case rmatch ic r (p, c # cs, None) of [] \<Rightarrow> re_search ic r (Some c) cs | m # ms \<Rightarrow> Some m)"

definition lit :: "string \<Rightarrow> regex" where
  "lit s = foldr (\<lambda>c r. Seq (Cls [Lit c]) r) s Eps"

section \<open>Normalization and parsing of the vehicle identifier\<close>

text \<open>\<^verbatim>\<open>normalize_plate\<close>: \<^verbatim>\<open>re.sub(r"[^A-Z0-9]", "", s.upper())\<close>; the argument is a
  string at every call the model makes.\<close>

definition normalize_plate :: "string \<Rightarrow> string" where
  "normalize_plate s = filter (\<lambda>c. is_upper c \<or> is_digit c) (upper s)"

text \<open>\<^verbatim>\<open>Truck\s*(?:Number|No\.?|#)?\s*[:\-]?\s*([A-Z0-9\- ]{4,})\<close>\<close>

definition plate_cls :: "atom list" where
  "plate_cls = [Rng CHR ''A'' CHR ''Z'', Rng CHR ''0'' CHR ''9'', Lit CHR ''-'', Lit CHR '' '']"

definition labelled_pattern :: regex where
  "labelled_pattern =
     Seq (lit ''Truck'')
    (Seq (Rep [Spc] 0 None)
    (Seq (Opt (Alt (lit ''Number'')
              (Alt (Seq (lit ''No'') (Rep [Lit CHR ''.''] 0 (Some 1)))
                   (Cls [Lit CHR ''#'']))))
    (Seq (Rep [Spc] 0 None)
    (Seq (Rep [Lit CHR '':'', Lit CHR ''-''] 0 (Some 1))
    (Seq (Rep [Spc] 0 None)
         (Grp (Rep plate_cls 4 None)))))))"

text \<open>\<^verbatim>\<open>\b([A-Z]{2,3}\s*\d{3,4}\s*[A-Z])\b\<close>\<close>

definition bare_pattern :: regex where
  "bare_pattern =
     Seq WordB
    (Seq (Grp (Seq (Rep [Rng CHR ''A'' CHR ''Z''] 2 (Some 3))
              (Seq (Rep [Spc] 0 None)
              (Seq (Rep [Dig] 3 (Some 4))
              (Seq (Rep [Spc] 0 None)
                   (Cls [Rng CHR ''A'' CHR ''Z'']))))))
          WordB)"

text \<open>\<^verbatim>\<open>m.group(1)\<close> of an unset group is \<^verbatim>\<open>None\<close>, which \<^verbatim>\<open>normalize_plate\<close> maps
  to the empty string.\<close>

definition group1 :: "mstate \<Rightarrow> string" where
  "group1 m = (case m of (p, s, g) \<Rightarrow> (case g of None \<Rightarrow> [] | Some t \<Rightarrow> normalize_plate t))"

definition extract_truck_number_from_text :: "string \<Rightarrow> string option" where
  "extract_truck_number_from_text text =
     (case re_search True labelled_pattern None text of
        Some m \<Rightarrow> Some (group1 m)
      | None \<Rightarrow>
          (case re_search True bare_pattern None text of
             Some m \<Rightarrow> Some (group1 m)
           | None \<Rightarrow> None))"

section \<open>Floating-point values and Python's \<^verbatim>\<open>float()\<close>\<close>

text \<open>
  A float is a rational, an infinity or not-a-number. Rounding to 53 bits and overflow
  are not modelled: arithmetic on finite values is exact.
\<close>

datatype pyfloat = Finite rat | PosInf | NegInf | FNaN

definition fneg :: "pyfloat \<Rightarrow> pyfloat" where
  "fneg x = (case x of Finite r \<Rightarrow> Finite (- r) | PosInf \<Rightarrow> NegInf | NegInf \<Rightarrow> PosInf | FNaN \<Rightarrow> FNaN)"

fun fadd :: "pyfloat \<Rightarrow> pyfloat \<Rightarrow> pyfloat" where
  "fadd (Finite a) (Finite b) = Finite (a + b)"
| "fadd FNaN y = FNaN"
| "fadd x FNaN = FNaN"
| "fadd PosInf NegInf = FNaN"
| "fadd NegInf PosInf = FNaN"
| "fadd PosInf y = PosInf"
| "fadd NegInf y = NegInf"
| "fadd x PosInf = PosInf"
| "fadd x NegInf = NegInf"

definition fsum :: "pyfloat list \<Rightarrow> pyfloat" where
  "fsum xs = foldl fadd (Finite 0) xs"

text \<open>A digit part is a non-empty run of digits; with \<open>us\<close>, single underscores may
  stand between digits (Python's \<^verbatim>\<open>float()\<close> accepts them).\<close>

definition valid_digitpart :: "bool \<Rightarrow> string \<Rightarrow> bool" where
  "valid_digitpart us s =
     (s \<noteq> [] \<and> is_digit (hd s) \<and> is_digit (last s) \<and>
      list_all (\<lambda>c. is_digit c \<or> (us \<and> c = CHR ''_'')) s \<and> \<not> contains ''__'' s)"

definition digits_value :: "string \<Rightarrow> 'a::semiring_1" where
  "digits_value s = foldl (\<lambda>n c. 10 * n + of_nat (ord c - 48)) 0 (filter is_digit s)"

definition split_sign :: "string \<Rightarrow> bool \<times> string" where
  "split_sign s =
     (case s of [] \<Rightarrow> (False, [])
      | c # cs \<Rightarrow> if c = CHR ''-'' then (True, cs) else if c = CHR ''+'' then (False, cs) else (False, s))"

text \<open>\<^verbatim>\<open>number ::= [digitpart] "." digitpart | digitpart ["."]\<close>\<close>

definition parse_mantissa :: "bool \<Rightarrow> string \<Rightarrow> rat option" where
  "parse_mantissa us s =
     (let ip = takeWhile (\<lambda>c. c \<noteq> CHR ''.'') s; rest = dropWhile (\<lambda>c. c \<noteq> CHR ''.'') s
      in if rest = [] then
           (if valid_digitpart us ip then Some (digits_value ip) else None)
         else
           (let fp = tl rest
            in if (ip = [] \<or> valid_digitpart us ip) \<and> (fp = [] \<or> valid_digitpart us fp)
                  \<and> \<not> (ip = [] \<and> fp = [])
               then Some (digits_value ip + digits_value fp / 10 ^ length (filter is_digit fp))
               else None))"

text \<open>\<^verbatim>\<open>exponent ::= ("e" | "E") [sign] digitpart\<close>\<close>

definition parse_exponent :: "bool \<Rightarrow> string \<Rightarrow> int option" where
  "parse_exponent us s =
     (case split_sign s of (neg, ds) \<Rightarrow>
        if valid_digitpart us ds
        then Some (if neg then - digits_value ds else digits_value ds)
        else None)"

definition scale10 :: "rat \<Rightarrow> int \<Rightarrow> rat" where
  "scale10 m e = (if 0 \<le> e then m * 10 ^ nat e else m / 10 ^ nat (- e))"

definition parse_number :: "bool \<Rightarrow> string \<Rightarrow> rat option" where
  "parse_number us s =
     (let is_e = (\<lambda>c. c = CHR ''e'' \<or> c = CHR ''E'');
          ms = takeWhile (\<lambda>c. \<not> is_e c) s; rest = dropWhile (\<lambda>c. \<not> is_e c) s
      in case parse_mantissa us ms of
           None \<Rightarrow> None
         | Some m \<Rightarrow>
             if rest = [] then Some m
             else (case parse_exponent us (tl rest) of None \<Rightarrow> None | Some e \<Rightarrow> Some (scale10 m e)))"

text \<open>\<^verbatim>\<open>floatvalue ::= [sign] (floatnumber | infinity | nan)\<close>, surrounded by optional
  whitespace; \<open>None\<close> is \<^verbatim>\<open>ValueError\<close>.\<close>

definition parse_float :: "bool \<Rightarrow> string \<Rightarrow> pyfloat option" where
  "parse_float us s =
     (case split_sign (strip s) of (neg, body) \<Rightarrow>
        (let v = (if lower body = ''inf'' \<or> lower body = ''infinity'' then Some PosInf
                  else if lower body = ''nan'' then Some FNaN
                  else map_option Finite (parse_number us body))
         in if neg then map_option fneg v else v))"

definition py_float :: "string \<Rightarrow> pyfloat option" where
  "py_float s = parse_float True s"

section \<open>Strings: \<^verbatim>\<open>replace\<close> and \<^verbatim>\<open>split\<close>\<close>

text \<open>\<^verbatim>\<open>s.replace(old, new)\<close> for a non-empty \<open>old\<close>: occurrences are replaced from the
  left, without overlap.\<close>

function replace :: "string \<Rightarrow> string \<Rightarrow> string \<Rightarrow> string" where
  "replace old new [] = []"
| "replace old new (c # cs) =
     (if old \<noteq> [] \<and> prefix old (c # cs)
      then new @ replace old new (drop (length old - 1) cs)
      else c # replace old new cs)"
  by pat_completeness auto
termination
  by (relation "measure (\<lambda>(old, new, s). length s)") auto

text \<open>\<^verbatim>\<open>s.split(sep)\<close> for a non-empty \<open>sep\<close>: the pieces between the occurrences of
  \<open>sep\<close>, found from the left; \<open>acc\<close> holds the piece being read, reversed.\<close>

function split_acc :: "string \<Rightarrow> string \<Rightarrow> string \<Rightarrow> string list" where
  "split_acc sep acc [] = [rev acc]"
| "split_acc sep acc (c # cs) =
     (if sep \<noteq> [] \<and> prefix sep (c # cs)
      then rev acc # split_acc sep [] (drop (length sep - 1) cs)
      else split_acc sep (c # acc) cs)"
  by pat_completeness auto
termination
  by (relation "measure (\<lambda>(sep, acc, s). length s)") auto

definition split :: "string \<Rightarrow> string \<Rightarrow> string list" where
  "split sep s = split_acc sep [] s"

section \<open>Spreadsheet cells\<close>

text \<open>
  A cell read by pandas is text or a number. A numeric cell is written as Python's
  \<^verbatim>\<open>str()\<close> prints it (\<^verbatim>\<open>12\<close>, \<^verbatim>\<open>3.5\<close>, \<^verbatim>\<open>nan\<close> for an empty cell), so that
  \<^verbatim>\<open>astype(str)\<close> is exact; its value is what that text parses to.
\<close>

datatype cell = Txt string | Num string

definition cell_str :: "cell \<Rightarrow> string" where
  "cell_str c = (case c of Txt s \<Rightarrow> s | Num t \<Rightarrow> t)"

definition nan_cell :: cell where
  "nan_cell = Num ''nan''"

text \<open>\<^verbatim>\<open>pd.isna\<close> on a cell.\<close>

definition isna :: "cell \<Rightarrow> bool" where
  "isna c = (case c of Txt s \<Rightarrow> False | Num t \<Rightarrow> parse_float False t = Some FNaN)"

section \<open>Coordinates\<close>

text \<open>\<^verbatim>\<open>extract_coordinates\<close>: every exception inside is caught and gives the absent pair.
  \<^verbatim>\<open>parts[1]\<close> exists whenever \<^verbatim>\<open>LONG:\<close> occurs in the string.\<close>

definition extract_coordinates :: "cell \<Rightarrow> pyfloat option \<times> pyfloat option" where
  "extract_coordinates coord =
     (case coord of
        Num t \<Rightarrow> (None, None)
      | Txt coord_str \<Rightarrow>
          if contains ''LAT:'' coord_str \<and> contains ''LONG:'' coord_str then
            (case split ''LONG:'' coord_str of
               p0 # p1 # ps \<Rightarrow>
                 (case py_float (replace '' '' [] (strip (replace ''LAT:'' [] p0))) of
                    None \<Rightarrow> (None, None)
                  | Some latitude \<Rightarrow>
                      (case py_float (replace '' '' [] (strip p1)) of
                         None \<Rightarrow> (None, None)
                       | Some longitude \<Rightarrow> (Some latitude, Some longitude)))
             | _ \<Rightarrow> (None, None))
          else (None, None))"

section \<open>Errors\<close>

text \<open>Every \<^verbatim>\<open>raise\<close> of the source, and every exception pandas or Python raises on the
  paths modelled, is a value.\<close>

datatype error =
    HeaderRowNotFound
  | MissingRequiredColumns "string list"
  | KeyError string
  | ColumnsLengthMismatch
  | NoValidData
  | MultipleTruckNumbers string
  | AssetColumnsMissing
  | IntConversionError

section \<open>Order sheets\<close>

text \<open>
  An order sheet is the headerless table \<^verbatim>\<open>pd.read_excel(excel_file, header=None)\<close>
  returns: rows of cells, all of the same width. Header labels are assumed distinct
  (pandas renames a repeated label); a column is looked up by its first occurrence.
\<close>

type_synonym sheet = "cell list list"

record frame =
  columns :: "string list"
  rows :: "cell list list"

definition first_cell :: "cell list \<Rightarrow> cell" where
  "first_cell r = (case r of [] \<Rightarrow> nan_cell | c # cs \<Rightarrow> c)"

text \<open>The loop over column 0: the variable keeps the value of the last row tried, so a
  sheet without a plate leaves \<^verbatim>\<open>None\<close> or the empty string.\<close>

fun scan_truck_number :: "string option \<Rightarrow> string list \<Rightarrow> string option" where
  "scan_truck_number cur [] = cur"
| "scan_truck_number cur (row # others) =
     (let truck_number_norm = extract_truck_number_from_text row
      in if truck_number_norm \<noteq> None \<and> truck_number_norm \<noteq> Some []
         then truck_number_norm
         else scan_truck_number truck_number_norm others)"

definition sheet_truck_number :: "sheet \<Rightarrow> string option" where
  "sheet_truck_number raw_df =
     (if raw_df \<noteq> [] \<and> hd raw_df \<noteq> []
      then scan_truck_number None (map (\<lambda>r. cell_str (first_cell r)) raw_df)
      else None)"

definition is_header_cell :: "cell \<Rightarrow> bool" where
  "is_header_cell c = (upper (strip (cell_str c)) = ''NO.'')"

fun find_header_row :: "sheet \<Rightarrow> (cell list \<times> sheet) option" where
  "find_header_row [] = None"
| "find_header_row (r # rs) = (if list_ex is_header_cell r then Some (r, rs) else find_header_row rs)"

text \<open>\<^verbatim>\<open>re.sub(r"\s+", " ", s)\<close>\<close>

function collapse_ws :: "string \<Rightarrow> string" where
  "collapse_ws [] = []"
| "collapse_ws (c # cs) =
     (if is_space c then CHR '' '' # collapse_ws (dropWhile is_space cs) else c # collapse_ws cs)"
  by pat_completeness auto
termination
  by (relation "measure length") (auto simp: length_dropWhile_le less_Suc_eq_le)

text \<open>Decimal text of a natural number and of an integer (\<^verbatim>\<open>str(n)\<close>).\<close>

fun digit_char :: "nat \<Rightarrow> char" where
  "digit_char n = char_of (48 + n mod 10)"

function nat_str :: "nat \<Rightarrow> string" where
  "nat_str n = (if n < 10 then [digit_char n] else nat_str (n div 10) @ [digit_char n])"
  by pat_completeness auto
termination
  by (relation "measure id") auto

definition int_str :: "int \<Rightarrow> string" where
  "int_str i = (if i < 0 then CHR ''-'' # nat_str (nat (- i)) else nat_str (nat i))"

text \<open>The label pandas gives column \<open>i\<close> of the header row: the cell's text, or
  \<^verbatim>\<open>Unnamed: i\<close> for an empty cell; then the normalization of the source.\<close>

definition column_label :: "nat \<Rightarrow> cell \<Rightarrow> string" where
  "column_label i c = (if isna c then ''Unnamed: '' @ nat_str i else cell_str c)"

definition normalize_header :: "string \<Rightarrow> string" where
  "normalize_header col = upper (strip (collapse_ws col))"

definition select_columns :: "bool list \<Rightarrow> 'a list \<Rightarrow> 'a list" where
  "select_columns keep xs = map snd (filter fst (zip keep xs))"

definition read_with_header :: "cell list \<Rightarrow> sheet \<Rightarrow> frame" where
  "read_with_header header body =
     (let names = map (\<lambda>(i, c). normalize_header (column_label i c)) (enumerate 0 header);
          keep = map (\<lambda>n. \<not> prefix ''UNNAMED'' n) names
      in \<lparr> columns = select_columns keep names,
           rows = map (\<lambda>r. select_columns keep r) body \<rparr>)"

text \<open>\<^verbatim>\<open>df[col]\<close> in one row; a row shorter than the header is padded with empty cells.\<close>

fun col_index :: "string list \<Rightarrow> string \<Rightarrow> nat option" where
  "col_index [] name = None"
| "col_index (c # cs) name = (if c = name then Some 0 else map_option Suc (col_index cs name))"

definition get_cell :: "string list \<Rightarrow> string \<Rightarrow> cell list \<Rightarrow> cell" where
  "get_cell cols name r =
     (case col_index cols name of
        None \<Rightarrow> nan_cell
      | Some i \<Rightarrow> if i < length r then r ! i else nan_cell)"

text \<open>\<^verbatim>\<open>pd.to_numeric(df[col].astype(str).str.replace(",", "").str.strip(),
  errors="coerce").fillna(0)\<close> on one cell.\<close>

definition to_numeric :: "cell \<Rightarrow> pyfloat" where
  "to_numeric c =
     (case parse_float False (strip (replace '','' [] (cell_str c))) of
        None \<Rightarrow> Finite 0
      | Some v \<Rightarrow> if v = FNaN then Finite 0 else v)"

definition numeric_column :: "frame \<Rightarrow> string \<Rightarrow> cell list \<Rightarrow> pyfloat" where
  "numeric_column df col r =
     (if col \<in> set (columns df) then to_numeric (get_cell (columns df) col r) else Finite 0)"

definition required_cols :: "string list" where
  "required_cols = [''CUSTOMER ID'', ''CUSTOMER NAME'', ''LOCATION'', ''LOCATION COORDINATES'']"

definition group_cols :: "string list" where
  "group_cols = [''CUSTOMER ID'', ''CUSTOMER NAME'', ''LOCATION'', ''LOCATION COORDINATES'', ''REP'']"

definition is_total_row :: "frame \<Rightarrow> cell list \<Rightarrow> bool" where
  "is_total_row df r = contains ''TOTAL'' (upper (cell_str (get_cell (columns df) ''CUSTOMER NAME'' r)))"

definition filter_rows :: "frame \<Rightarrow> cell list list" where
  "filter_rows df =
     filter (\<lambda>r. \<not> is_total_row df r)
       (filter (\<lambda>r. \<not> isna (get_cell (columns df) ''CUSTOMER ID'' r)) (rows df))"

subsection \<open>Grouping\<close>

text \<open>The key of a row is its five grouping cells. \<^verbatim>\<open>groupby\<close> drops a row with an empty
  key cell, and lists the groups in the order of their keys: numbers before text,
  numbers by value, text by code point.\<close>

definition row_key :: "frame \<Rightarrow> cell list \<Rightarrow> cell list" where
  "row_key df r = map (\<lambda>name. get_cell (columns df) name r) group_cols"

fun fle :: "pyfloat \<Rightarrow> pyfloat \<Rightarrow> bool" where
  "fle (Finite a) (Finite b) = (a \<le> b)"
| "fle NegInf y = True"
| "fle x PosInf = True"
| "fle x y = False"

definition cell_le :: "cell \<Rightarrow> cell \<Rightarrow> bool" where
  "cell_le a b =
     (case a of
        Num s \<Rightarrow> (case b of
                    Num t \<Rightarrow> (case parse_float False s of
                                None \<Rightarrow> True
                              | Some x \<Rightarrow> (case parse_float False t of None \<Rightarrow> True | Some y \<Rightarrow> fle x y))
                  | Txt t \<Rightarrow> True)
      | Txt s \<Rightarrow> (case b of Num t \<Rightarrow> False | Txt t \<Rightarrow> s \<le> t))"

fun key_le :: "cell list \<Rightarrow> cell list \<Rightarrow> bool" where
  "key_le [] ys = True"
| "key_le (x # xs) [] = False"
| "key_le (x # xs) (y # ys) = (if x = y then key_le xs ys else cell_le x y)"

fun insert_by :: "('a \<Rightarrow> 'a \<Rightarrow> bool) \<Rightarrow> 'a \<Rightarrow> 'a list \<Rightarrow> 'a list" where
  "insert_by le x [] = [x]"
| "insert_by le x (y # ys) = (if le x y then x # y # ys else y # insert_by le x ys)"

definition sort_by :: "('a \<Rightarrow> 'a \<Rightarrow> bool) \<Rightarrow> 'a list \<Rightarrow> 'a list" where
  "sort_by le xs = foldr (insert_by le) xs []"

record group_row =
  g_key :: "cell list"
  g_tonnage :: pyfloat
  g_amount :: pyfloat
  g_invoice :: string

text \<open>\<^verbatim>\<open>", ".join(...)\<close>\<close>

fun join :: "string \<Rightarrow> string list \<Rightarrow> string" where
  "join sep [] = []"
| "join sep [x] = x"
| "join sep (x # y # ys) = x @ sep @ join sep (y # ys)"

definition aggregate_group :: "frame \<Rightarrow> cell list list \<Rightarrow> cell list \<Rightarrow> group_row" where
  "aggregate_group df rs k =
     (let members = filter (\<lambda>r. row_key df r = k) rs
      in \<lparr> g_key = k,
           g_tonnage = fsum (map (numeric_column df ''TONNAGE'') members),
           g_amount = fsum (map (numeric_column df ''AMOUNT'') members),
           g_invoice = join '', ''
             (map cell_str (filter (\<lambda>c. \<not> isna c)
                (map (get_cell (columns df) ''INVOICE NO'') members))) \<rparr>)"

text \<open>\<^verbatim>\<open>df.groupby([...], as_index=False).agg({...})\<close>: a grouping column that does not
  exist is a \<^verbatim>\<open>KeyError\<close> of \<^verbatim>\<open>groupby\<close>, an aggregated column that does not exist a
  \<^verbatim>\<open>KeyError\<close> of \<^verbatim>\<open>agg\<close>.\<close>

definition group_rows :: "frame \<Rightarrow> cell list list \<Rightarrow> error + group_row list" where
  "group_rows df rs =
     (case filter (\<lambda>name. name \<notin> set (columns df)) group_cols of
        name # others \<Rightarrow> Inl (KeyError name)
      | [] \<Rightarrow>
          if ''INVOICE NO'' \<notin> set (columns df) then Inl (KeyError ''INVOICE NO'')
          else
            (let keyed = filter (\<lambda>r. \<not> list_ex isna (row_key df r)) rs;
                 keys = sort_by key_le (remdups (map (row_key df) keyed))
             in Inr (map (aggregate_group df keyed) keys)))"

subsection \<open>The aggregated table\<close>

record stop_row =
  customer_id :: cell
  customer_name :: cell
  location :: cell
  location_coordinates :: cell
  rep :: cell
  tonnage :: pyfloat
  amount :: pyfloat
  invoice_no :: string
  lat :: pyfloat
  long :: pyfloat

text \<open>The coordinate columns and \<^verbatim>\<open>dropna(subset=["LAT", "LONG"])\<close> on one grouped row:
  the row is kept when both values are present and neither is not-a-number.\<close>

definition with_coordinates :: "group_row \<Rightarrow> stop_row option" where
  "with_coordinates g =
     (case extract_coordinates (g_key g ! 3) of
        (Some la, Some lo) \<Rightarrow>
          if la = FNaN \<or> lo = FNaN then None
          else Some \<lparr> customer_id = g_key g ! 0, customer_name = g_key g ! 1,
                      location = g_key g ! 2, location_coordinates = g_key g ! 3,
                      rep = g_key g ! 4, tonnage = g_tonnage g, amount = g_amount g,
                      invoice_no = g_invoice g, lat = la, long = lo \<rparr>
      | _ \<Rightarrow> None)"

text \<open>\<^verbatim>\<open>read_excel_to_df\<close>. Assigning the two coordinate columns from an \<^verbatim>\<open>apply\<close> over
  an empty table fails in pandas (\<^verbatim>\<open>Columns must be same length as key\<close>).\<close>

definition read_excel_to_df :: "sheet \<Rightarrow> error + (stop_row list \<times> string option)" where
  "read_excel_to_df raw_df =
     (let truck_number_norm = sheet_truck_number raw_df
      in case find_header_row raw_df of
           None \<Rightarrow> Inl HeaderRowNotFound
         | Some (header, body) \<Rightarrow>
             (let df = read_with_header header body;
                  missing = filter (\<lambda>c. c \<notin> set (columns df)) required_cols
              in if missing \<noteq> [] then Inl (MissingRequiredColumns missing)
                 else
                   (case group_rows df (filter_rows df) of
                      Inl e \<Rightarrow> Inl e
                    | Inr df_grouped \<Rightarrow>
                        if df_grouped = [] then Inl ColumnsLengthMismatch
                        else Inr (List.map_filter with_coordinates df_grouped, truck_number_norm))))"

section \<open>Several order files\<close>


text \<open>\<^verbatim>\<open>drop_duplicates(subset=["CUSTOMER ID", "LOCATION"], keep="first")\<close>\<close>

fun drop_duplicates :: "(cell \<times> cell) list \<Rightarrow> stop_row list \<Rightarrow> stop_row list" where
  "drop_duplicates seen [] = []"
| "drop_duplicates seen (r # rs) =
     (if (customer_id r, location r) \<in> set seen then drop_duplicates seen rs
      else r # drop_duplicates ((customer_id r, location r) # seen) rs)"



section \<open>The asset sheet\<close>

text \<open>Truncation toward zero, as \<^verbatim>\<open>int()\<close> does on a float.\<close>

definition trunc :: "rat \<Rightarrow> int" where
  "trunc r = (if 0 \<le> r then \<lfloor>r\<rfloor> else \<lceil>r\<rceil>)"

definition int_of_float :: "pyfloat \<Rightarrow> int option" where
  "int_of_float x = (case x of Finite r \<Rightarrow> Some (trunc r) | _ \<Rightarrow> None)"

text \<open>\<^verbatim>\<open>int(x)\<close> on a cell: an integer literal for text, the truncated value for a
  number; \<open>None\<close> when Python raises.\<close>

definition int_of_cell :: "cell \<Rightarrow> int option" where
  "int_of_cell c =
     (case c of
        Txt s \<Rightarrow> (case split_sign (strip s) of (neg, ds) \<Rightarrow>
                    if valid_digitpart True ds
                    then Some (if neg then - digits_value ds else digits_value ds)
                    else None)
      | Num t \<Rightarrow> (case parse_float False t of None \<Rightarrow> None | Some x \<Rightarrow> int_of_float x))"

definition name_candidates :: "string list" where
  "name_candidates = [''reportname'', ''name'', ''unit'', ''unitname'']"

text \<open>\<^verbatim>\<open>read_asset_id_from_excel\<close>; the frame is \<^verbatim>\<open>pd.read_excel(excel_file)\<close>, its labels
  text. A truck number is falsy when it is \<^verbatim>\<open>None\<close> or empty.\<close>

definition read_asset_id_from_excel :: "frame \<Rightarrow> string option \<Rightarrow> error + (int option \<times> string option)" where
  "read_asset_id_from_excel excel_file truck_number_norm =
     (let cols = map (\<lambda>col. lower (strip col)) (columns excel_file)
      in case filter (\<lambda>candidate. candidate \<in> set cols) name_candidates of
           [] \<Rightarrow> Inl AssetColumnsMissing
         | name_col # others \<Rightarrow>
             if ''itemid'' \<notin> set cols then Inl AssetColumnsMissing
             else
               (case truck_number_norm of
                  None \<Rightarrow> Inr (None, None)
                | Some truck \<Rightarrow>
                    if truck = [] then Inr (None, None)
                    else
                      (let normalized_name = (\<lambda>r. normalize_plate (cell_str (get_cell cols name_col r)));
                           exact = filter (\<lambda>r. normalized_name r = truck) (rows excel_file);
                           matched = (if exact = []
                                      then filter (\<lambda>r. contains truck (normalized_name r)) (rows excel_file)
                                      else exact)
                       in case matched of
                            [] \<Rightarrow> Inr (None, None)
                          | row # others \<Rightarrow>
                              (case int_of_cell (get_cell cols ''itemid'' row) of
                                 None \<Rightarrow> Inl IntConversionError
                               | Some unit_id \<Rightarrow>
                                   Inr (Some unit_id, Some (cell_str (get_cell cols name_col row)))))))"

section \<open>Remote responses\<close>

text \<open>A response body as \<^verbatim>\<open>response.json()\<close> returns it. A dictionary is the list of its
  items; of two items with the same key the later one counts.\<close>

datatype json =
    JNull
  | JBool bool
  | JInt int
  | JFloat pyfloat
  | JStr string
  | JList "json list"
  | JDict "(string \<times> json) list"

definition is_dict :: "json \<Rightarrow> bool" where
  "is_dict j = (case j of JDict kvs \<Rightarrow> True | _ \<Rightarrow> False)"

definition has_key :: "json \<Rightarrow> string \<Rightarrow> bool" where
  "has_key j k = (case j of JDict kvs \<Rightarrow> k \<in> fst ` set kvs | _ \<Rightarrow> False)"

text \<open>\<^verbatim>\<open>d.get(k, default)\<close> on a dictionary; \<^verbatim>\<open>d.get(k)\<close> has the default \<^verbatim>\<open>None\<close>, which
  is \<open>JNull\<close>.\<close>

definition get_default :: "json \<Rightarrow> string \<Rightarrow> json \<Rightarrow> json" where
  "get_default j k d =
     (case j of JDict kvs \<Rightarrow> (case map_of (rev kvs) k of None \<Rightarrow> d | Some v \<Rightarrow> v) | _ \<Rightarrow> d)"

definition get :: "json \<Rightarrow> string \<Rightarrow> json" where
  "get j k = get_default j k JNull"

text \<open>Truth value of a Python object.\<close>

definition truthy :: "json \<Rightarrow> bool" where
  "truthy j =
     (case j of
        JNull \<Rightarrow> False
      | JBool b \<Rightarrow> b
      | JInt n \<Rightarrow> n \<noteq> 0
      | JFloat x \<Rightarrow> x \<noteq> Finite 0
      | JStr s \<Rightarrow> s \<noteq> []
      | JList xs \<Rightarrow> xs \<noteq> []
      | JDict kvs \<Rightarrow> kvs \<noteq> [])"

text \<open>\<^verbatim>\<open>j == n\<close> for an integer \<open>n\<close>: a float or a boolean with the same value is equal.\<close>

definition eq_int :: "json \<Rightarrow> int \<Rightarrow> bool" where
  "eq_int j n =
     (case j of
        JBool b \<Rightarrow> (if b then 1 else 0) = n
      | JInt m \<Rightarrow> m = n
      | JFloat x \<Rightarrow> x = Finite (of_int n)
      | _ \<Rightarrow> False)"

text \<open>\<^verbatim>\<open>a or b\<close>\<close>

definition py_or :: "json \<Rightarrow> json \<Rightarrow> json" where
  "py_or a b = (if truthy a then a else b)"

text \<open>The items a \<^verbatim>\<open>for\<close> loop visits: the elements of a list, the characters of a
  string, the keys of a dictionary; \<open>None\<close> when the object cannot be iterated.\<close>

definition iterate :: "json \<Rightarrow> json list option" where
  "iterate j =
     (case j of
        JList xs \<Rightarrow> Some xs
      | JStr s \<Rightarrow> Some (map (\<lambda>c. JStr [c]) s)
      | JDict kvs \<Rightarrow> Some (map JStr (remdups (map fst kvs)))
      | _ \<Rightarrow> None)"

text \<open>\<^verbatim>\<open>x[0]\<close> on a truthy object: a dictionary from JSON has no key \<open>0\<close>.\<close>

definition first_item :: "json \<Rightarrow> json option" where
  "first_item j =
     (case j of
        JList xs \<Rightarrow> (case xs of [] \<Rightarrow> None | x # others \<Rightarrow> Some x)
      | JStr s \<Rightarrow> (case s of [] \<Rightarrow> None | c # others \<Rightarrow> Some (JStr [c]))
      | _ \<Rightarrow> None)"

section \<open>The route builder\<close>

subsection \<open>Data sent to the remote service\<close>

text \<open>An order of the optimization request and a stop of the route plan, with the
  fields that vary; constant fields and the formatted address are left out. Weights and
  costs are kept as the integers whose decimal text the payload carries.\<close>

record opt_order =
  o_id :: int
  o_n :: cell
  o_y :: pyfloat
  o_x :: pyfloat
  o_w :: int
  o_pr :: int

record stop =
  s_id :: int
  s_n :: cell
  s_f :: int
  s_r :: int
  s_w :: int
  s_c :: int
  s_vt :: int
  s_i :: int
  s_m :: int
  s_y :: pyfloat
  s_x :: pyfloat
  s_rp :: "json option"

record summary =
  sum_count :: nat
  sum_duration :: json
  sum_mileage :: int
  sum_cost :: int
  sum_weight :: int

datatype call =
    LoginCall
  | OptimizeCall "opt_order list"
  | OsrmCall "pyfloat \<times> pyfloat" "pyfloat \<times> pyfloat"
  | BatchCall "stop list" summary

text \<open>What the remote services answer; \<open>None\<close> is a request that raises (timeout,
  transport fault, a body that is not JSON). \<open>osrm_response k\<close> answers the \<open>k\<close>-th
  fallback lookup.\<close>

record remote =
  login_response :: "json option"
  optimize_response :: "json option"
  osrm_response :: "nat \<Rightarrow> json option"
  batch_response :: "json option"

text \<open>The dictionary the function returns, one constructor for each \<^verbatim>\<open>return\<close>:
  \<open>Failure code message\<close> carries the values of the keys \<^verbatim>\<open>error\<close> and \<^verbatim>\<open>message\<close> where
  they come from a response.\<close>

datatype route_result =
    LoginFailed json
  | OptimizeFailed json json
  | NoOptimizedOrders
  | RouteCreated json
  | BatchFailed json json
  | UnexpectedResponse json
  | UnexpectedError

definition no_optimized_orders_message :: string where
  "no_optimized_orders_message = ''No optimized orders in response''"

definition result_message :: "route_result \<Rightarrow> json option" where
  "result_message r =
     (case r of
        OptimizeFailed code reason \<Rightarrow> Some reason
      | BatchFailed code reason \<Rightarrow> Some reason
      | NoOptimizedOrders \<Rightarrow> Some (JStr no_optimized_orders_message)
      | RouteCreated sid \<Rightarrow> Some (JStr ''Route created successfully'')
      | _ \<Rightarrow> None)"

subsection \<open>Arithmetic on floats\<close>

definition morl_lat :: pyfloat where
  "morl_lat = Finite (- (28802969095623043 / 10 ^ 17))"

definition morl_lon :: pyfloat where
  "morl_lon = Finite (3604494759379902 / 10 ^ 14)"

definition morl :: "pyfloat \<times> pyfloat" where
  "morl = (morl_lat, morl_lon)"

definition ftimes1000 :: "pyfloat \<Rightarrow> pyfloat" where
  "ftimes1000 x = (case x of Finite r \<Rightarrow> Finite (r * 1000) | _ \<Rightarrow> x)"

text \<open>The haversine distance in kilometres is computed with floating-point
  trigonometry, which is not modelled: it is the parameter \<open>haversine\<close> of the functions
  below (\<open>None\<close> when the computation raises). \<^verbatim>\<open>int(d * 1000)\<close> is the leg in metres.\<close>

type_synonym distance = "pyfloat \<times> pyfloat \<Rightarrow> pyfloat \<times> pyfloat \<Rightarrow> rat option"

definition leg_mileage :: "distance \<Rightarrow> pyfloat \<times> pyfloat \<Rightarrow> pyfloat \<times> pyfloat \<Rightarrow> int option" where
  "leg_mileage haversine a b = map_option (\<lambda>d. trunc (d * 1000)) (haversine a b)"

subsection \<open>The optimization request\<close>

text \<open>The table sorted by the distance from the depot (rows at the same distance keep
  their order here); \<open>None\<close> when a distance cannot be computed.\<close>

definition presort :: "distance \<Rightarrow> stop_row list \<Rightarrow> stop_row list option" where
  "presort haversine df_grouped =
     map_option (\<lambda>ds. map snd (sort_by (\<lambda>a b. fst a \<le> fst b) (zip ds df_grouped)))
       (those (map (\<lambda>row. haversine morl (lat row, long row)) df_grouped))"

text \<open>The weight of the request is computed inside \<^verbatim>\<open>try\<close>: a tonnage that is not a
  finite number gives 0.\<close>

definition build_orders :: "stop_row list \<Rightarrow> opt_order list" where
  "build_orders df =
     map (\<lambda>(idx, row).
            \<lparr> o_id = int idx + 1, o_n = customer_name row, o_y = lat row, o_x = long row,
              o_w = (case int_of_float (ftimes1000 (tonnage row)) of None \<Rightarrow> 0 | Some w \<Rightarrow> w),
              o_pr = int idx + 1 \<rparr>)
         (enumerate 0 df)"

subsection \<open>Reading the optimized response\<close>

text \<open>The last entry flagged 264 gives the geometry of the final leg.\<close>

definition end_warehouse_geometry :: "json list \<Rightarrow> json" where
  "end_warehouse_geometry entries =
     (case find (\<lambda>resp_order. is_dict resp_order \<and> eq_int (get resp_order ''f'') 264) (rev entries) of
        None \<Rightarrow> JNull
      | Some resp_order \<Rightarrow> py_or (get resp_order ''rp'') (get resp_order ''p''))"

text \<open>The per-vehicle part of the response: the order list, the first route summary and
  the final geometry; \<open>None\<close> when an access raises (an object without \<^verbatim>\<open>get\<close>, a value
  that cannot be indexed or iterated).\<close>

definition per_vehicle :: "int \<Rightarrow> json \<Rightarrow> (json \<times> json option \<times> json) option" where
  "per_vehicle unit_id optimize_result =
     (let unit_key = int_str unit_id
      in if is_dict optimize_result \<and> has_key optimize_result unit_key then
           (let unit_obj = get optimize_result unit_key
            in if \<not> is_dict unit_obj then None
               else
                 (let optimized_orders = get_default unit_obj ''orders'' (JList []);
                      routes = get unit_obj ''routes''
                  in case (if truthy routes then map_option Some (first_item routes) else Some None) of
                       None \<Rightarrow> None
                     | Some route_summary \<Rightarrow>
                         (case (if truthy optimized_orders then iterate optimized_orders else Some []) of
                            None \<Rightarrow> None
                          | Some entries \<Rightarrow>
                              Some (optimized_orders, route_summary, end_warehouse_geometry entries))))
         else Some (JList [], None, JNull))"

subsection \<open>Assembling the plan\<close>

definition start_stop :: "int \<Rightarrow> stop" where
  "start_stop tf =
     \<lparr> s_id = 0, s_n = Txt ''MORL'', s_f = 260, s_r = 100, s_w = 0, s_c = 0, s_vt = tf,
       s_i = 0, s_m = 0, s_y = morl_lat, s_x = morl_lon, s_rp = None \<rparr>"

text \<open>\<^verbatim>\<open>order_id not in order_id_to_name\<close>: the keys are the integers of the request; a
  list or a dictionary cannot be hashed (\<^verbatim>\<open>TypeError\<close>).\<close>

datatype id_lookup = Unhashable | Unknown | Known opt_order

definition lookup_order_id :: "json \<Rightarrow> opt_order list \<Rightarrow> id_lookup" where
  "lookup_order_id order_id orders =
     (case order_id of
        JNull \<Rightarrow> Unknown
      | JList xs \<Rightarrow> Unhashable
      | JDict kvs \<Rightarrow> Unhashable
      | _ \<Rightarrow> (case find (\<lambda>sent. eq_int order_id (o_id sent)) orders of
                None \<Rightarrow> Unknown
              | Some sent \<Rightarrow> Known sent))"

text \<open>\<^verbatim>\<open>coord_map.get(order_name, depot)\<close>: the depot entry is written last.\<close>

definition coord_map :: "stop_row list \<Rightarrow> cell \<Rightarrow> pyfloat \<times> pyfloat" where
  "coord_map df order_name =
     (if order_name = Txt ''MORL'' then morl
      else case find (\<lambda>row. customer_name row = order_name) (rev df) of
             None \<Rightarrow> morl
           | Some row \<Rightarrow> (lat row, long row))"

text \<open>\<^verbatim>\<open>isinstance(order_tm, int)\<close> holds for integers and booleans.\<close>

definition int_value :: "json \<Rightarrow> int option" where
  "int_value j = (case j of JInt n \<Rightarrow> Some n | JBool b \<Rightarrow> Some (if b then 1 else 0) | _ \<Rightarrow> None)"

definition planned_time :: "json \<Rightarrow> int \<Rightarrow> int \<Rightarrow> int" where
  "planned_time order_tm last_visit_time tf =
     (case int_value order_tm of
        None \<Rightarrow> last_visit_time + 600
      | Some t \<Rightarrow> if t \<le> 0 then last_visit_time + 600
                  else max t (max (last_visit_time + 60) tf))"

text \<open>The fallback lookup: every exception inside is swallowed and leaves the geometry
  as it was.\<close>

definition osrm_geometry :: "json option \<Rightarrow> json \<Rightarrow> json" where
  "osrm_geometry response order_rp =
     (case response of
        None \<Rightarrow> order_rp
      | Some osrm_json \<Rightarrow>
          if is_dict osrm_json \<and> truthy (get osrm_json ''routes'') then
            (case first_item (get osrm_json ''routes'') of
               None \<Rightarrow> order_rp
             | Some route \<Rightarrow> if is_dict route then get route ''geometry'' else order_rp)
          else order_rp)"

record build =
  last_visit_time :: int
  sequence_index :: int
  prev_coords :: "pyfloat \<times> pyfloat"
  route_orders :: "stop list"
  calls :: "call list"
  osrm_count :: nat

text \<open>Geometry of a leg: the optimizer's, or else the fallback lookup, which is one more
  remote call.\<close>

definition resolve_geometry :: "remote \<Rightarrow> build \<Rightarrow> pyfloat \<times> pyfloat \<Rightarrow> json \<Rightarrow> json \<times> build" where
  "resolve_geometry env b coords order_rp =
     (if truthy order_rp then (order_rp, b)
      else (osrm_geometry (osrm_response env (osrm_count b)) order_rp,
            b\<lparr> calls := calls b @ [OsrmCall (prev_coords b) coords],
               osrm_count := osrm_count b + 1 \<rparr>))"

text \<open>One pass of the loop over the optimized orders. \<open>Inl\<close> is an exception, with the
  calls made until then.\<close>

definition add_order :: "remote \<Rightarrow> distance \<Rightarrow> stop_row list \<Rightarrow> opt_order list \<Rightarrow> int
    \<Rightarrow> build \<Rightarrow> json \<Rightarrow> call list + build" where
  "add_order env haversine df orders tf b resp =
     (case lookup_order_id (if is_dict resp then get resp ''id'' else JNull) orders of
        Unhashable \<Rightarrow> Inl (calls b)
      | Unknown \<Rightarrow> Inr b
      | Known sent \<Rightarrow>
          (let order_name = o_n sent;
               coords = coord_map df order_name;
               cust_rows = filter (\<lambda>row. customer_name row = order_name) df
           in case (case cust_rows of [] \<Rightarrow> Some 0
                    | row # others \<Rightarrow> int_of_float (ftimes1000 (tonnage row))) of
                None \<Rightarrow> Inl (calls b)
              | Some weight_kg \<Rightarrow>
                  (let cost_val = (case cust_rows of [] \<Rightarrow> Finite 0 | row # others \<Rightarrow> amount row);
                       order_tm = planned_time (get resp ''tm'') (last_visit_time b) tf
                   in case leg_mileage haversine (prev_coords b) coords of
                        None \<Rightarrow> Inl (calls b)
                      | Some mileage \<Rightarrow>
                          (case resolve_geometry env b coords (py_or (get resp ''rp'') (get resp ''p'')) of
                             (order_rp, b') \<Rightarrow>
                               (case int_of_float cost_val of
                                  None \<Rightarrow> Inl (calls b')
                                | Some cost \<Rightarrow>
                                    Inr (b'\<lparr> last_visit_time := order_tm,
                                             sequence_index := sequence_index b + 1,
                                             prev_coords := coords,
                                             route_orders := route_orders b @
                                               [\<lparr> s_id = o_id sent, s_n = order_name, s_f = 0, s_r = 20,
                                                  s_w = weight_kg, s_c = cost, s_vt = order_tm,
                                                  s_i = sequence_index b + 1, s_m = mileage,
                                                  s_y = fst coords, s_x = snd coords,
                                                  s_rp = (if truthy order_rp then Some order_rp else None) \<rparr>] \<rparr>))))))"

fun add_orders :: "remote \<Rightarrow> distance \<Rightarrow> stop_row list \<Rightarrow> opt_order list \<Rightarrow> int
    \<Rightarrow> build \<Rightarrow> json list \<Rightarrow> call list + build" where
  "add_orders env haversine df orders tf b [] = Inr b"
| "add_orders env haversine df orders tf b (resp # resps) =
     (case add_order env haversine df orders tf b resp of
        Inl cs \<Rightarrow> Inl cs
      | Inr b' \<Rightarrow> add_orders env haversine df orders tf b' resps)"

text \<open>The closing depot stop.\<close>

definition close_route :: "remote \<Rightarrow> distance \<Rightarrow> json \<Rightarrow> build \<Rightarrow> call list + build" where
  "close_route env haversine end_warehouse_rp b =
     (case leg_mileage haversine (prev_coords b) morl of
        None \<Rightarrow> Inl (calls b)
      | Some mileage_back \<Rightarrow>
          (let final_id = fold max (map s_id (route_orders b)) 0 + 1
           in case resolve_geometry env b morl end_warehouse_rp of
                (rp, b') \<Rightarrow>
                  Inr (b'\<lparr> sequence_index := sequence_index b + 1,
                           route_orders := route_orders b @
                             [\<lparr> s_id = final_id, s_n = Txt ''MORL'', s_f = 264, s_r = 100,
                                s_w = 0, s_c = 0, s_vt = last_visit_time b + 600,
                                s_i = sequence_index b + 1, s_m = mileage_back,
                                s_y = morl_lat, s_x = morl_lon,
                                s_rp = (if truthy rp then Some rp else None) \<rparr>] \<rparr>)))"

definition assemble_plan :: "remote \<Rightarrow> distance \<Rightarrow> stop_row list \<Rightarrow> opt_order list \<Rightarrow> int
    \<Rightarrow> call list \<Rightarrow> json list \<Rightarrow> json \<Rightarrow> call list + build" where
  "assemble_plan env haversine df orders tf cs entries end_warehouse_rp =
     (case add_orders env haversine df orders tf
             \<lparr> last_visit_time = tf, sequence_index = 0, prev_coords = morl,
               route_orders = [start_stop tf], calls = cs, osrm_count = 0 \<rparr> entries of
        Inl cs' \<Rightarrow> Inl cs'
      | Inr b \<Rightarrow> close_route env haversine end_warehouse_rp b)"

subsection \<open>Summary and persistence\<close>

definition plan_summary :: "json option \<Rightarrow> stop list \<Rightarrow> summary" where
  "plan_summary route_summary plan =
     \<lparr> sum_count = length plan,
       sum_duration = (case route_summary of
                     None \<Rightarrow> JInt 0
                   | Some rs \<Rightarrow> if is_dict rs then get_default rs ''duration'' (JInt 0) else JInt 0),
       sum_mileage = sum_list (map s_m plan),
       sum_cost = sum_list (map s_c (filter (\<lambda>st. s_f st = 0) plan)),
       sum_weight = sum_list (map s_w (filter (\<lambda>st. s_f st = 0) plan)) \<rparr>"

definition item_has_error :: "json \<Rightarrow> bool" where
  "item_has_error item = (is_dict item \<and> \<not> eq_int (get_default item ''error'' (JInt 0)) 0)"

definition batch_result :: "json \<Rightarrow> json \<Rightarrow> route_result" where
  "batch_result session_id route_result =
     (case route_result of
        JList items \<Rightarrow>
          (case find item_has_error items of
             None \<Rightarrow> RouteCreated session_id
           | Some error_item \<Rightarrow>
               BatchFailed (get_default error_item ''error'' (JInt 1))
                 (get_default error_item ''reason'' (JStr ''Unknown error in batch response'')))
      | JDict kvs \<Rightarrow>
          if eq_int (get_default route_result ''error'' (JInt 1)) 0 then RouteCreated session_id
          else UnexpectedResponse route_result
      | _ \<Rightarrow> UnexpectedResponse route_result)"

subsection \<open>The whole submission to the remote service\<close>

text \<open>
  \<^verbatim>\<open>send_orders_and_create_route\<close>, with the result and the remote calls made, in order.
  The token, the resource id, the vehicle name and the clock only fill fields that are
  left out here. The caller passes a table with at least one row. Every exception is
  caught by the outer \<^verbatim>\<open>try\<close> and gives \<open>UnexpectedError\<close>.
\<close>

definition send_orders_and_create_route :: "remote \<Rightarrow> distance \<Rightarrow> int \<Rightarrow> stop_row list \<Rightarrow> int \<Rightarrow> int
    \<Rightarrow> route_result \<times> call list" where
  "send_orders_and_create_route env haversine unit_id df_grouped tf tt =
     (case login_response env of
        None \<Rightarrow> (UnexpectedError, [LoginCall])
      | Some login_result \<Rightarrow>
          if \<not> (is_dict login_result \<and> has_key login_result ''eid'')
          then (LoginFailed login_result, [LoginCall])
          else
            (case presort haversine df_grouped of
               None \<Rightarrow> (UnexpectedError, [LoginCall])
             | Some df \<Rightarrow>
                 (let orders = build_orders df;
                      cs = [LoginCall, OptimizeCall orders]
                  in case optimize_response env of
                       None \<Rightarrow> (UnexpectedError, cs)
                     | Some optimize_result \<Rightarrow>
                         if is_dict optimize_result
                            \<and> \<not> eq_int (get_default optimize_result ''error'' (JInt 0)) 0
                         then (OptimizeFailed (get_default optimize_result ''error'' (JInt 1))
                                 (get_default optimize_result ''reason'' (JStr ''Optimization failed'')), cs)
                         else
                           (case per_vehicle unit_id optimize_result of
                              None \<Rightarrow> (UnexpectedError, cs)
                            | Some (optimized_orders, route_summary, end_warehouse_rp) \<Rightarrow>
                                if \<not> truthy optimized_orders then (NoOptimizedOrders, cs)
                                else
                                  (case iterate optimized_orders of
                                     None \<Rightarrow> (UnexpectedError, cs)
                                   | Some entries \<Rightarrow>
                                       (case assemble_plan env haversine df orders tf cs entries end_warehouse_rp of
                                          Inl cs' \<Rightarrow> (UnexpectedError, cs')
                                        | Inr b \<Rightarrow>
                                            (let cs' = calls b @
                                                   [BatchCall (route_orders b)
                                                      (plan_summary route_summary (route_orders b))]
                                             in case batch_response env of
                                                  None \<Rightarrow> (UnexpectedError, cs')
                                                | Some route_result \<Rightarrow>
                                                    (batch_result (get login_result ''eid'') route_result, cs'))))))))"

section \<open>Orchestration\<close>



section \<open>Notions used in the statements\<close>

subsection \<open>Asset lookup\<close>

text \<open>The asset table of the worked example, with unit ids 5001 and 5002.\<close>

definition example_assets :: frame where
  "example_assets = \<lparr> columns = [''ReportName'', ''itemId''],
     rows = [[Txt ''KBX 123Z-TRUCK'', Num ''5001''], [Txt ''KAA999Y'', Num ''5002'']] \<rparr>"

text \<open>The asset sheet has the unit-id column, and \<open>name_col\<close> is the first candidate name
  column it has.\<close>

definition asset_columns_ok :: "frame \<Rightarrow> string \<Rightarrow> bool" where
  "asset_columns_ok f name_col =
     (let cols = map (\<lambda>col. lower (strip col)) (columns f)
      in ''itemid'' \<in> set cols \<and>
         (case filter (\<lambda>candidate. candidate \<in> set cols) name_candidates of
            [] \<Rightarrow> False | c # cs \<Rightarrow> c = name_col))"

text \<open>Display name and unit id of a row of the asset sheet.\<close>

definition asset_name :: "frame \<Rightarrow> string \<Rightarrow> cell list \<Rightarrow> string" where
  "asset_name f name_col r = cell_str (get_cell (map (\<lambda>col. lower (strip col)) (columns f)) name_col r)"

definition asset_unit_id :: "frame \<Rightarrow> cell list \<Rightarrow> int option" where
  "asset_unit_id f r = int_of_cell (get_cell (map (\<lambda>col. lower (strip col)) (columns f)) ''itemid'' r)"

subsection \<open>Coordinates\<close>

text \<open>Following the spec's words, the exact form \<^verbatim>\<open>LAT:<num>LONG:<num>\<close>: the text
  \<^verbatim>\<open>LAT:\<close>, a number, the text \<^verbatim>\<open>LONG:\<close>, a number, and nothing else, where a number
  is what \<^verbatim>\<open>float()\<close> accepts and may have whitespace around it.\<close>

definition exact_coordinate_form :: "string \<Rightarrow> bool" where
  "exact_coordinate_form s =
     (case split ''LONG:'' (strip s) of
        [p0, p1] \<Rightarrow> prefix ''LAT:'' p0 \<and> py_float (drop 4 p0) \<noteq> None \<and> py_float p1 \<noteq> None
      | _ \<Rightarrow> False)"

text \<open>The two texts \<^verbatim>\<open>extract_coordinates\<close> hands to \<^verbatim>\<open>float()\<close>.\<close>

definition latitude_text :: "string \<Rightarrow> string" where
  "latitude_text s = replace '' '' [] (strip (replace ''LAT:'' [] (hd (split ''LONG:'' s))))"

definition longitude_text :: "string \<Rightarrow> string" where
  "longitude_text s = replace '' '' [] (strip (split ''LONG:'' s ! 1))"

text \<open>An order sheet with a vehicle line, the header row, two rows of one customer with
  tonnages 2.0 and 3.5, and a row whose coordinates are a place name.\<close>

definition example_orders :: sheet where
  "example_orders =
     [[Txt ''Truck No. KBX-123 Z'', nan_cell, nan_cell, nan_cell, nan_cell, nan_cell, nan_cell, nan_cell],
      [Txt ''NO.'', Txt ''Customer ID'', Txt ''Customer Name'', Txt ''Location'',
       Txt ''Location Coordinates'', Txt ''Rep'', Txt ''Tonnage'', Txt ''Invoice No''],
      [Num ''1'', Num ''17'', Txt ''Acme'', Txt ''Nakuru'', Txt ''LAT:-0.3LONG:36.1'', Txt ''Joe'',
       Num ''2.0'', Num ''991''],
      [Num ''2'', Num ''17'', Txt ''Acme'', Txt ''Nakuru'', Txt ''LAT:-0.3LONG:36.1'', Txt ''Joe'',
       Num ''3.5'', Num ''992''],
      [Num ''3'', Num ''9'', Txt ''Beta'', Txt ''Njoro'', Txt ''Njoro town'', Txt ''Ann'',
       Num ''1.0'', Txt ''A7'']]"

definition example_row :: stop_row where
  "example_row =
     \<lparr> customer_id = Num ''17'', customer_name = Txt ''Acme'', location = Txt ''Nakuru'',
       location_coordinates = Txt ''LAT:-0.3LONG:36.1'', rep = Txt ''Joe'',
       tonnage = Finite (11 / 2), amount = Finite 0, invoice_no = ''991, 992'',
       lat = Finite (- (3 / 10)), long = Finite (361 / 10) \<rparr>"

subsection \<open>Aggregation\<close>





definition file_tables :: "sheet list \<Rightarrow> stop_row list" where
  "file_tables excel_files =
     concat (map (\<lambda>f. case read_excel_to_df f of Inl e \<Rightarrow> [] | Inr (table, truck) \<Rightarrow> table) excel_files)"



subsection \<open>Optional columns\<close>

text \<open>Two order sheets with one delivery row: the first has the four required columns and
  the representative, the second the four required columns only.\<close>

definition orders_without_invoice :: sheet where
  "orders_without_invoice =
     [[Txt ''NO.'', Txt ''CUSTOMER ID'', Txt ''CUSTOMER NAME'', Txt ''LOCATION'',
       Txt ''LOCATION COORDINATES'', Txt ''REP''],
      [Num ''1'', Num ''17'', Txt ''Acme'', Txt ''Nakuru'', Txt ''LAT:-0.3LONG:36.1'', Txt ''Joe'']]"

definition orders_required_only :: sheet where
  "orders_required_only =
     [[Txt ''NO.'', Txt ''CUSTOMER ID'', Txt ''CUSTOMER NAME'', Txt ''LOCATION'',
       Txt ''LOCATION COORDINATES''],
      [Num ''1'', Num ''17'', Txt ''Acme'', Txt ''Nakuru'', Txt ''LAT:-0.3LONG:36.1'']]"

subsection \<open>Vehicle identifiers of a submission\<close>






subsection \<open>Route building\<close>

text \<open>The id an entry of the optimized order list carries (none for an entry that is not
  a dictionary), whether it is the id of a submitted order, and the order it names.\<close>

definition entry_id :: "json \<Rightarrow> json" where
  "entry_id resp = (if is_dict resp then get resp ''id'' else JNull)"

definition recognized :: "opt_order list \<Rightarrow> json \<Rightarrow> bool" where
  "recognized orders resp =
     (case lookup_order_id (entry_id resp) orders of Known sent \<Rightarrow> True | _ \<Rightarrow> False)"

definition named_order_id :: "opt_order list \<Rightarrow> json \<Rightarrow> int" where
  "named_order_id orders resp =
     (case lookup_order_id (entry_id resp) orders of Known sent \<Rightarrow> o_id sent | _ \<Rightarrow> 0)"

text \<open>An id that can be looked up in a dictionary: not a list and not a dictionary.\<close>

definition hashable :: "json \<Rightarrow> bool" where
  "hashable j = (case j of JList xs \<Rightarrow> False | JDict kvs \<Rightarrow> False | _ \<Rightarrow> True)"

definition is_batch_call :: "call \<Rightarrow> bool" where
  "is_batch_call c = (case c of BatchCall plan s \<Rightarrow> True | _ \<Rightarrow> False)"

text \<open>A time the optimizer supplied is usable when it is a positive integer.\<close>

definition usable_time :: "json \<Rightarrow> bool" where
  "usable_time order_tm = (case int_value order_tm of None \<Rightarrow> False | Some t \<Rightarrow> 0 < t)"

text \<open>The scenario of the spec: two delivery rows with tonnages 1.0 and 2.0, the unit
  7, and a time window. The distance is a stand-in for the haversine formula, the sum
  of the differences in latitude and longitude, at 111 km for a degree.\<close>

definition scenario_rows :: "stop_row list" where
  "scenario_rows =
     [\<lparr> customer_id = Num ''17'', customer_name = Txt ''Acme'', location = Txt ''Nakuru'',
        location_coordinates = Txt ''LAT:-0.3LONG:36.1'', rep = Txt ''Joe'',
        tonnage = Finite 1, amount = Finite 100, invoice_no = ''991'',
        lat = Finite (- (3 / 10)), long = Finite (361 / 10) \<rparr>,
      \<lparr> customer_id = Num ''9'', customer_name = Txt ''Beta'', location = Txt ''Njoro'',
        location_coordinates = Txt ''LAT:-0.4LONG:36.0'', rep = Txt ''Ann'',
        tonnage = Finite 2, amount = Finite (501 / 2), invoice_no = ''A7'',
        lat = Finite (- (2 / 5)), long = Finite 36 \<rparr>]"

definition scenario_distance :: distance where
  "scenario_distance a b =
     (case (a, b) of
        ((Finite y1, Finite x1), (Finite y2, Finite x2)) \<Rightarrow> Some (111 * (\<bar>y1 - y2\<bar> + \<bar>x1 - x2\<bar>))
      | _ \<Rightarrow> None)"

text \<open>The optimizer returns order 2, an entry with an unknown id, a stray string,
  order 1 and the closing depot entry; the session is \<^verbatim>\<open>abc\<close>.\<close>

definition scenario_optimized :: json where
  "scenario_optimized =
     JDict [(''7'', JDict [(''orders'',
       JList [JDict [(''id'', JInt 2), (''tm'', JInt 1000)],
              JDict [(''id'', JInt 7), (''tm'', JInt 1100)],
              JStr ''x'',
              JDict [(''id'', JInt 1), (''rp'', JStr ''poly'')],
              JDict [(''id'', JInt 99999), (''f'', JInt 264), (''p'', JStr ''endpoly'')]])])]"

definition scenario_remote :: remote where
  "scenario_remote =
     \<lparr> login_response = Some (JDict [(''eid'', JStr ''abc'')]),
       optimize_response = Some scenario_optimized,
       osrm_response = (\<lambda>k. None),
       batch_response = Some (JList [JDict [(''error'', JInt 0)]]) \<rparr>"




text \<open>The entries of the optimized order list the assembly loop visits, and the orders
  submitted for optimization, for a call of \<^verbatim>\<open>send_orders_and_create_route\<close>; both are
  empty when the call does not get that far.\<close>

definition optimized_entries :: "remote \<Rightarrow> int \<Rightarrow> json list" where
  "optimized_entries env unit_id =
     (case optimize_response env of
        None \<Rightarrow> []
      | Some optimize_result \<Rightarrow>
          (case per_vehicle unit_id optimize_result of
             None \<Rightarrow> []
           | Some (optimized_orders, route_summary, end_warehouse_rp) \<Rightarrow>
               (case iterate optimized_orders of None \<Rightarrow> [] | Some entries \<Rightarrow> entries)))"

definition submitted_orders :: "distance \<Rightarrow> stop_row list \<Rightarrow> opt_order list" where
  "submitted_orders haversine df_grouped =
     (case presort haversine df_grouped of None \<Rightarrow> [] | Some df \<Rightarrow> build_orders df)"

text \<open>The visit times the loop gives to a sequence of optimizer times, starting after
  the visit time \<open>previous\<close>.\<close>

fun visit_times :: "int \<Rightarrow> int \<Rightarrow> json list \<Rightarrow> int list" where
  "visit_times tf previous [] = []"
| "visit_times tf previous (order_tm # more_tms) =
     planned_time order_tm previous tf # visit_times tf (planned_time order_tm previous tf) more_tms"

text \<open>The plans carried by the persistence calls of a list of calls.\<close>

definition batched_plans :: "call list \<Rightarrow> stop list list" where
  "batched_plans cs = concat (map (\<lambda>c. case c of BatchCall plan s \<Rightarrow> [plan] | _ \<Rightarrow> []) cs)"

text \<open>The plan and the summary of the scenario.\<close>

definition scenario_plan :: "stop list" where
  "scenario_plan =
     [\<lparr> s_id = 0, s_n = Txt ''MORL'', s_f = 260, s_r = 100, s_w = 0, s_c = 0,
        s_vt = 21600, s_i = 0, s_m = 0, s_y = morl_lat, s_x = morl_lon, s_rp = None \<rparr>,
      \<lparr> s_id = 2, s_n = Txt ''Beta'', s_f = 0, s_r = 20, s_w = 2000, s_c = 250,
        s_vt = 21660, s_i = 1, s_m = 17417, s_y = Finite (- (2 / 5)), s_x = Finite 36,
        s_rp = None \<rparr>,
      \<lparr> s_id = 1, s_n = Txt ''Acme'', s_f = 0, s_r = 20, s_w = 1000, s_c = 100,
        s_vt = 22260, s_i = 2, s_m = 22200, s_y = Finite (- (3 / 10)), s_x = Finite (361 / 10),
        s_rp = Some (JStr ''poly'') \<rparr>,
      \<lparr> s_id = 3, s_n = Txt ''MORL'', s_f = 264, s_r = 100, s_w = 0, s_c = 0,
        s_vt = 22860, s_i = 3, s_m = 7439, s_y = morl_lat, s_x = morl_lon,
        s_rp = Some (JStr ''endpoly'') \<rparr>]"

definition scenario_summary :: summary where
  "scenario_summary =
     \<lparr> sum_count = 4, sum_duration = JInt 0, sum_mileage = 47056, sum_cost = 350,
       sum_weight = 3000 \<rparr>"

text \<open>An optimizer that returns an entry whose id is a list before order 1, and one that
  returns order 1 with the boolean \<^verbatim>\<open>true\<close> for its time.\<close>

definition unhashable_remote :: remote where
  "unhashable_remote = scenario_remote
     \<lparr> optimize_response := Some (JDict [(''7'', JDict [(''orders'',
          JList [JDict [(''id'', JList [JInt 1])], JDict [(''id'', JInt 1)]])])]) \<rparr>"

definition boolean_time_remote :: remote where
  "boolean_time_remote = scenario_remote
     \<lparr> optimize_response := Some (JDict [(''7'', JDict [(''orders'',
          JList [JDict [(''id'', JInt 1), (''tm'', JBool True)]])])]) \<rparr>"

section \<open>Verified properties\<close>

subsection \<open>Asset lookup: exact match before containment\<close>

lemma find_Some_filter: "find P xs = Some x \<Longrightarrow> \<exists>ys. filter P xs = x # ys"
  by (induction xs) (auto split: if_splits)

lemma find_None_filter: "find P xs = None \<Longrightarrow> filter P xs = []"
  by (induction xs) (auto split: if_splits)

lemma read_asset_unfold:
  assumes "asset_columns_ok f name_col" and "t \<noteq> []"
  shows "read_asset_id_from_excel f (Some t) =
     (case (if filter (\<lambda>r. normalize_plate (asset_name f name_col r) = t) (rows f) = []
            then filter (\<lambda>r. contains t (normalize_plate (asset_name f name_col r))) (rows f)
            else filter (\<lambda>r. normalize_plate (asset_name f name_col r) = t) (rows f)) of
        [] \<Rightarrow> Inr (None, None)
      | row # others \<Rightarrow>
          (case asset_unit_id f row of
             None \<Rightarrow> Inl IntConversionError
           | Some u \<Rightarrow> Inr (Some u, Some (asset_name f name_col row))))"
proof -
  obtain cs where c: "filter (\<lambda>candidate. candidate \<in> set (map (\<lambda>col. lower (strip col)) (columns f))) name_candidates = name_col # cs"
    and i: "''itemid'' \<in> set (map (\<lambda>col. lower (strip col)) (columns f))"
    using assms(1) unfolding asset_columns_ok_def Let_def by (auto split: list.splits)
  show ?thesis
    unfolding read_asset_id_from_excel_def Let_def c asset_name_def asset_unit_id_def
    using i assms(2) by simp
qed

lemma read_asset_falsy:
  assumes "asset_columns_ok f name_col" and "truck = None \<or> truck = Some []"
  shows "read_asset_id_from_excel f truck = Inr (None, None)"
proof -
  obtain cs where c: "filter (\<lambda>candidate. candidate \<in> set (map (\<lambda>col. lower (strip col)) (columns f))) name_candidates = name_col # cs"
    and i: "''itemid'' \<in> set (map (\<lambda>col. lower (strip col)) (columns f))"
    using assms(1) unfolding asset_columns_ok_def Let_def by (auto split: list.splits)
  show ?thesis
    unfolding read_asset_id_from_excel_def Let_def c
    using i assms(2) by auto
qed

text \<open>
  Claim C6. When the asset sheet has its name and unit-id columns: an absent or empty
  identifier gives the absent pair; otherwise the first row whose normalized name equals
  the identifier answers, and only when no row does, the first row whose normalized name
  contains it; the answer is that row's unit id and display name; when no row matches
  either way the result is the absent pair.
\<close>

theorem asset_match_exact_then_containment:
  assumes ok: "asset_columns_ok f name_col"
  shows "(truck = None \<or> truck = Some [] \<longrightarrow> read_asset_id_from_excel f truck = Inr (None, None))
    \<and> (\<forall>t row u. truck = Some t \<and> t \<noteq> []
          \<and> find (\<lambda>r. normalize_plate (asset_name f name_col r) = t) (rows f) = Some row
          \<and> asset_unit_id f row = Some u
        \<longrightarrow> read_asset_id_from_excel f truck = Inr (Some u, Some (asset_name f name_col row)))
    \<and> (\<forall>t row u. truck = Some t \<and> t \<noteq> []
          \<and> find (\<lambda>r. normalize_plate (asset_name f name_col r) = t) (rows f) = None
          \<and> find (\<lambda>r. contains t (normalize_plate (asset_name f name_col r))) (rows f) = Some row
          \<and> asset_unit_id f row = Some u
        \<longrightarrow> read_asset_id_from_excel f truck = Inr (Some u, Some (asset_name f name_col row)))
    \<and> (\<forall>t. truck = Some t
          \<and> find (\<lambda>r. normalize_plate (asset_name f name_col r) = t) (rows f) = None
          \<and> find (\<lambda>r. contains t (normalize_plate (asset_name f name_col r))) (rows f) = None
        \<longrightarrow> read_asset_id_from_excel f truck = Inr (None, None))"
proof (intro conjI allI impI)
  assume "truck = None \<or> truck = Some []"
  then show "read_asset_id_from_excel f truck = Inr (None, None)"
    using read_asset_falsy [OF ok] by blast
next
  fix t row u
  assume h: "truck = Some t \<and> t \<noteq> []
      \<and> find (\<lambda>r. normalize_plate (asset_name f name_col r) = t) (rows f) = Some row
      \<and> asset_unit_id f row = Some u"
  then obtain ys where "filter (\<lambda>r. normalize_plate (asset_name f name_col r) = t) (rows f) = row # ys"
    using find_Some_filter by fastforce
  then show "read_asset_id_from_excel f truck = Inr (Some u, Some (asset_name f name_col row))"
    using h read_asset_unfold [OF ok, of t] by simp
next
  fix t row u
  assume h: "truck = Some t \<and> t \<noteq> []
      \<and> find (\<lambda>r. normalize_plate (asset_name f name_col r) = t) (rows f) = None
      \<and> find (\<lambda>r. contains t (normalize_plate (asset_name f name_col r))) (rows f) = Some row
      \<and> asset_unit_id f row = Some u"
  then obtain ys where "filter (\<lambda>r. contains t (normalize_plate (asset_name f name_col r))) (rows f) = row # ys"
    using find_Some_filter by fastforce
  moreover have "filter (\<lambda>r. normalize_plate (asset_name f name_col r) = t) (rows f) = []"
    using h find_None_filter by fastforce
  ultimately show "read_asset_id_from_excel f truck = Inr (Some u, Some (asset_name f name_col row))"
    using h read_asset_unfold [OF ok, of t] by simp
next
  fix t
  assume h: "truck = Some t
      \<and> find (\<lambda>r. normalize_plate (asset_name f name_col r) = t) (rows f) = None
      \<and> find (\<lambda>r. contains t (normalize_plate (asset_name f name_col r))) (rows f) = None"
  have e1: "filter (\<lambda>r. normalize_plate (asset_name f name_col r) = t) (rows f) = []"
    using h find_None_filter by fastforce
  have e2: "filter (\<lambda>r. contains t (normalize_plate (asset_name f name_col r))) (rows f) = []"
    using h find_None_filter by fastforce
  show "read_asset_id_from_excel f truck = Inr (None, None)"
  proof (cases "t = []")
    case True
    then show ?thesis using h read_asset_falsy [OF ok, of truck] by simp
  next
    case False
    then show ?thesis using h e1 e2 read_asset_unfold [OF ok False] by simp
  qed
qed

lemma example_assets_columns: "asset_columns_ok example_assets ''reportname''"
  by code_simp

lemma example_assets_exact:
  "find (\<lambda>r. normalize_plate (asset_name example_assets ''reportname'' r) = ''KBX123Z'') (rows example_assets) = None"
  by code_simp

lemma example_assets_containment:
  "find (\<lambda>r. contains ''KBX123Z'' (normalize_plate (asset_name example_assets ''reportname'' r))) (rows example_assets)
     = Some [Txt ''KBX 123Z-TRUCK'', Num ''5001'']"
  by code_simp

lemma example_assets_cell:
  "get_cell (map (\<lambda>col. lower (strip col)) (columns example_assets)) ''itemid'' [Txt ''KBX 123Z-TRUCK'', Num ''5001''] = Num ''5001''"
  by code_simp

lemma example_assets_name:
  "asset_name example_assets ''reportname'' [Txt ''KBX 123Z-TRUCK'', Num ''5001''] = ''KBX 123Z-TRUCK''"
  by code_simp

lemma int_of_cell_5001: "int_of_cell (Num ''5001'') = Some 5001"
  by code_simp

text \<open>The worked example: for the names \<^verbatim>\<open>KBX 123Z-TRUCK\<close> and \<^verbatim>\<open>KAA999Y\<close> and the
  identifier \<^verbatim>\<open>KBX123Z\<close> no name is equal, the first contains it, and its unit id is
  returned.\<close>

theorem asset_match_witness:
  "read_asset_id_from_excel example_assets (Some ''KBX123Z'') = Inr (Some 5001, Some ''KBX 123Z-TRUCK'')"
  using asset_match_exact_then_containment [OF example_assets_columns, of "Some ''KBX123Z''"]
    example_assets_exact example_assets_containment example_assets_name
  by (simp add: asset_unit_id_def example_assets_cell int_of_cell_5001)

subsection \<open>Coordinate parsing and the rows kept\<close>

lemma split_acc_nonempty: "split_acc sep acc s \<noteq> []"
  by (induction sep acc s rule: split_acc.induct) auto

lemma split_acc_two:
  "sep \<noteq> [] \<Longrightarrow> contains sep s \<Longrightarrow> \<exists>p0 p1 ps. split_acc sep acc s = p0 # p1 # ps"
proof (induction s arbitrary: acc)
  case Nil
  then show ?case by simp
next
  case (Cons c cs)
  show ?case
  proof (cases "prefix sep (c # cs)")
    case True
    obtain q qs where "split_acc sep [] (drop (length sep - 1) cs) = q # qs"
      using split_acc_nonempty by (meson list.exhaust)
    then show ?thesis using True Cons.prems(1) by simp
  next
    case False
    then have "contains sep cs" using Cons.prems(2) by simp
    then show ?thesis using False Cons.IH [OF Cons.prems(1)] by simp
  qed
qed

lemma extract_coordinates_pieces:
  assumes "contains ''LAT:'' s" and "contains ''LONG:'' s"
  shows "extract_coordinates (Txt s) =
     (case py_float (latitude_text s) of
        None \<Rightarrow> (None, None)
      | Some la \<Rightarrow> (case py_float (longitude_text s) of
                     None \<Rightarrow> (None, None)
                   | Some lo \<Rightarrow> (Some la, Some lo)))"
proof -
  obtain p0 p1 ps where sp: "split ''LONG:'' s = p0 # p1 # ps"
    using split_acc_two [of "''LONG:''" s "[]"] assms(2) unfolding split_def by auto
  show ?thesis
    using assms
    by (simp add: extract_coordinates_def latitude_text_def longitude_text_def sp split: option.splits)
qed

lemma extract_coordinates_both:
  "extract_coordinates c = (None, None) \<or> (\<exists>la lo. extract_coordinates c = (Some la, Some lo))"
  unfolding extract_coordinates_def
  by (auto split: cell.splits list.splits option.splits)

lemma with_coordinates_Some:
  assumes "with_coordinates g = Some r"
  shows "extract_coordinates (location_coordinates r) = (Some (lat r), Some (long r))
    \<and> lat r \<noteq> FNaN \<and> long r \<noteq> FNaN"
  using assms unfolding with_coordinates_def
  by (auto split: prod.splits option.splits if_splits)

lemma read_excel_table:
  assumes "read_excel_to_df raw_df = Inr (table, truck)"
  shows "\<exists>header body gs. find_header_row raw_df = Some (header, body)
     \<and> group_rows (read_with_header header body) (filter_rows (read_with_header header body)) = Inr gs
     \<and> gs \<noteq> [] \<and> table = List.map_filter with_coordinates gs \<and> truck = sheet_truck_number raw_df"
  using assms unfolding read_excel_to_df_def Let_def
  by (auto split: option.splits prod.splits if_splits sum.splits)

lemma map_filter_mem: "r \<in> set (List.map_filter f xs) \<Longrightarrow> \<exists>x\<in>set xs. f x = Some r"
  by (auto simp: List.map_filter_def)

text \<open>
  Claim C2, as amended. \<^verbatim>\<open>extract_coordinates\<close> returns the absent pair for every value that
  is not text, for every text that lacks \<^verbatim>\<open>LAT:\<close> or \<^verbatim>\<open>LONG:\<close>, and for every text one of
  whose two pieces \<^verbatim>\<open>float()\<close> rejects (the piece before the first \<^verbatim>\<open>LONG:\<close> with every
  \<^verbatim>\<open>LAT:\<close> and every space removed, and the piece after it up to the next \<^verbatim>\<open>LONG:\<close> with
  every space removed); when both pieces are accepted it returns their values. Every row
  of the final aggregated table has a coordinate string that yields its latitude and
  longitude, both numbers: a grouped row whose string does not is excluded.
\<close>

theorem coordinates_absent_or_row_excluded:
  "(\<forall>t. extract_coordinates (Num t) = (None, None))
 \<and> (\<forall>s. \<not> contains ''LAT:'' s \<or> \<not> contains ''LONG:'' s
        \<longrightarrow> extract_coordinates (Txt s) = (None, None))
 \<and> (\<forall>s. contains ''LAT:'' s \<and> contains ''LONG:'' s
        \<and> (py_float (latitude_text s) = None \<or> py_float (longitude_text s) = None)
        \<longrightarrow> extract_coordinates (Txt s) = (None, None))
 \<and> (\<forall>s la lo. contains ''LAT:'' s \<and> contains ''LONG:'' s
        \<and> py_float (latitude_text s) = Some la \<and> py_float (longitude_text s) = Some lo
        \<longrightarrow> extract_coordinates (Txt s) = (Some la, Some lo))
 \<and> (\<forall>raw_df table truck r. read_excel_to_df raw_df = Inr (table, truck) \<and> r \<in> set table
        \<longrightarrow> extract_coordinates (location_coordinates r) = (Some (lat r), Some (long r))
            \<and> lat r \<noteq> FNaN \<and> long r \<noteq> FNaN)"
proof -
  have c1: "\<forall>t. extract_coordinates (Num t) = (None, None)"
    by (simp add: extract_coordinates_def)
  have c2: "\<forall>s. \<not> contains ''LAT:'' s \<or> \<not> contains ''LONG:'' s
        \<longrightarrow> extract_coordinates (Txt s) = (None, None)"
    by (auto simp: extract_coordinates_def)
  have c3: "\<forall>s. contains ''LAT:'' s \<and> contains ''LONG:'' s
        \<and> (py_float (latitude_text s) = None \<or> py_float (longitude_text s) = None)
        \<longrightarrow> extract_coordinates (Txt s) = (None, None)"
    using extract_coordinates_pieces by (auto split: option.splits)
  have c4: "\<forall>s la lo. contains ''LAT:'' s \<and> contains ''LONG:'' s
        \<and> py_float (latitude_text s) = Some la \<and> py_float (longitude_text s) = Some lo
        \<longrightarrow> extract_coordinates (Txt s) = (Some la, Some lo)"
    using extract_coordinates_pieces by simp
  have c5: "\<forall>raw_df table truck r. read_excel_to_df raw_df = Inr (table, truck) \<and> r \<in> set table
        \<longrightarrow> extract_coordinates (location_coordinates r) = (Some (lat r), Some (long r))
            \<and> lat r \<noteq> FNaN \<and> long r \<noteq> FNaN"
  proof (intro allI impI)
    fix raw_df table truck r
    assume h: "read_excel_to_df raw_df = Inr (table, truck) \<and> r \<in> set table"
    then obtain gs where "table = List.map_filter with_coordinates gs"
      using read_excel_table by blast
    then obtain g where "with_coordinates g = Some r"
      using h map_filter_mem by fastforce
    then show "extract_coordinates (location_coordinates r) = (Some (lat r), Some (long r))
            \<and> lat r \<noteq> FNaN \<and> long r \<noteq> FNaN"
      by (rule with_coordinates_Some)
  qed
  from c1 c2 c3 c4 c5 show ?thesis
    by blast
qed

text \<open>The text \<^verbatim>\<open>LAT:1LONG:2LONG:3\<close> is not of the exact form, and is parsed to (1, 2).\<close>

theorem coordinates_lenient_counterexample:
  "\<not> exact_coordinate_form ''LAT:1LONG:2LONG:3''
   \<and> extract_coordinates (Txt ''LAT:1LONG:2LONG:3'') = (Some (Finite 1), Some (Finite 2))"
  by code_simp

lemma example_orders_table:
  "read_excel_to_df example_orders = Inr ([example_row], Some ''KBX123Z'')"
  by code_simp

text \<open>Instances: a numeric cell, a place name, a latitude that is not a number, a
  well-formed string, and the example sheet, whose row with a place name for coordinates
  is absent from the table.\<close>

theorem coordinates_witness:
  "extract_coordinates (Num ''36.1'') = (None, None)
   \<and> extract_coordinates (Txt ''Njoro town'') = (None, None)
   \<and> extract_coordinates (Txt ''LAT:southLONG:36.1'') = (None, None)
   \<and> extract_coordinates (Txt ''LAT: -0.3 LONG: 36.1'') = (Some (Finite (- (3 / 10))), Some (Finite (361 / 10)))
   \<and> read_excel_to_df example_orders = Inr ([example_row], Some ''KBX123Z'')
   \<and> extract_coordinates (location_coordinates example_row)
       = (Some (lat example_row), Some (long example_row))"
proof -
  note T = coordinates_absent_or_row_excluded
  have w1: "extract_coordinates (Num ''36.1'') = (None, None)"
    by (rule T [THEN conjunct1, rule_format])
  have w2: "extract_coordinates (Txt ''Njoro town'') = (None, None)"
    by (rule T [THEN conjunct2, THEN conjunct1, rule_format]) code_simp
  have w3: "extract_coordinates (Txt ''LAT:southLONG:36.1'') = (None, None)"
    by (rule T [THEN conjunct2, THEN conjunct2, THEN conjunct1, rule_format]) code_simp
  have w4: "extract_coordinates (Txt ''LAT: -0.3 LONG: 36.1'')
      = (Some (Finite (- (3 / 10))), Some (Finite (361 / 10)))"
    by (rule T [THEN conjunct2, THEN conjunct2, THEN conjunct2, THEN conjunct1, rule_format]) code_simp
  have w5: "extract_coordinates (location_coordinates example_row)
       = (Some (lat example_row), Some (long example_row))
     \<and> lat example_row \<noteq> FNaN \<and> long example_row \<noteq> FNaN"
    by (rule T [THEN conjunct2, THEN conjunct2, THEN conjunct2, THEN conjunct2, rule_format,
          of example_orders "[example_row]" "Some ''KBX123Z''"])
       (simp add: example_orders_table)
  from w1 w2 w3 w4 w5 example_orders_table show ?thesis
    by simp
qed

subsection \<open>Aggregation: one row for each tuple, with the sums\<close>















text \<open>Several files: the first row of each pair of customer id and location is kept.\<close>

lemma drop_duplicates_subset: "set (drop_duplicates seen rs) \<subseteq> set rs"
  by (induction seen rs rule: drop_duplicates.induct) auto















lemma example_orders_tables: "file_tables [example_orders] = [example_row]"
  by (simp add: file_tables_def example_orders_table)


subsection \<open>Optional columns that are absent\<close>

text \<open>
  Claim C3 at two sheets whose headers hold the required set. Without the invoice column
  the aggregation fails with the \<^verbatim>\<open>KeyError\<close> of \<^verbatim>\<open>agg\<close>, although the aggregating
  function of the source has a branch that returns the empty string for that case;
  without the representative column it fails with the \<^verbatim>\<open>KeyError\<close> of \<^verbatim>\<open>groupby\<close>. The
  absent tonnage and amount columns are filled with zero before.
\<close>

theorem optional_columns_absent_fails:
  "read_excel_to_df orders_without_invoice = Inl (KeyError ''INVOICE NO'')
   \<and> read_excel_to_df orders_required_only = Inl (KeyError ''REP'')
   \<and> numeric_column (read_with_header (hd orders_without_invoice) (tl orders_without_invoice))
        ''TONNAGE'' (orders_without_invoice ! 1) = Finite 0
   \<and> numeric_column (read_with_header (hd orders_without_invoice) (tl orders_without_invoice))
        ''AMOUNT'' (orders_without_invoice ! 1) = Finite 0"
  by code_simp

subsection \<open>More than one vehicle identifier\<close>















subsection \<open>Failures of the optimization\<close>


lemma send_after_optimize:
  assumes "login_response env = Some login_result" and "is_dict login_result"
    and "has_key login_result ''eid''"
    and "presort haversine df_grouped = Some df"
    and "optimize_response env = Some res"
  shows "send_orders_and_create_route env haversine unit_id df_grouped tf tt =
     (let cs = [LoginCall, OptimizeCall (build_orders df)]
      in if is_dict res \<and> \<not> eq_int (get_default res ''error'' (JInt 0)) 0
         then (OptimizeFailed (get_default res ''error'' (JInt 1))
                 (get_default res ''reason'' (JStr ''Optimization failed'')), cs)
         else
           (case per_vehicle unit_id res of
              None \<Rightarrow> (UnexpectedError, cs)
            | Some (optimized_orders, route_summary, end_warehouse_rp) \<Rightarrow>
                if \<not> truthy optimized_orders then (NoOptimizedOrders, cs)
                else
                  (case iterate optimized_orders of
                     None \<Rightarrow> (UnexpectedError, cs)
                   | Some entries \<Rightarrow>
                       (case assemble_plan env haversine df (build_orders df) tf cs entries end_warehouse_rp of
                          Inl cs' \<Rightarrow> (UnexpectedError, cs')
                        | Inr b \<Rightarrow>
                            (let cs' = calls b @
                                   [BatchCall (route_orders b)
                                      (plan_summary route_summary (route_orders b))]
                             in case batch_response env of
                                  None \<Rightarrow> (UnexpectedError, cs')
                                | Some route_result \<Rightarrow>
                                    (batch_result (get login_result ''eid'') route_result, cs'))))))"
  using assms unfolding send_orders_and_create_route_def Let_def by simp



lemma scenario_orders:
  "build_orders scenario_rows =
     [\<lparr> o_id = 1, o_n = Txt ''Acme'', o_y = Finite (- (3 / 10)), o_x = Finite (361 / 10), o_w = 1000, o_pr = 1 \<rparr>,
      \<lparr> o_id = 2, o_n = Txt ''Beta'', o_y = Finite (- (2 / 5)), o_x = Finite 36, o_w = 2000, o_pr = 2 \<rparr>]"
  by code_simp



subsection \<open>The shape of an assembled plan\<close>

lemma resolve_geometry_build:
  assumes "resolve_geometry env b coords rp = (rp', b')"
  shows "last_visit_time b' = last_visit_time b \<and> sequence_index b' = sequence_index b
    \<and> prev_coords b' = prev_coords b \<and> route_orders b' = route_orders b
    \<and> (list_ex is_batch_call (calls b') = list_ex is_batch_call (calls b))"
  using assms unfolding resolve_geometry_def
  by (auto simp: is_batch_call_def split: if_splits)

lemma add_order_step:
  assumes "add_order env haversine df orders tf b resp = Inr b'"
  shows "(recognized orders resp \<longrightarrow>
            (\<exists>st. route_orders b' = route_orders b @ [st] \<and> s_f st = 0
               \<and> s_id st = named_order_id orders resp
               \<and> s_i st = sequence_index b + 1
               \<and> s_vt st = planned_time (get resp ''tm'') (last_visit_time b) tf
               \<and> sequence_index b' = sequence_index b + 1
               \<and> last_visit_time b' = planned_time (get resp ''tm'') (last_visit_time b) tf))
       \<and> (\<not> recognized orders resp \<longrightarrow> b' = b)
       \<and> (list_ex is_batch_call (calls b') = list_ex is_batch_call (calls b))"
proof (cases "lookup_order_id (entry_id resp) orders")
  case Unhashable
  then show ?thesis using assms by (simp add: add_order_def entry_id_def)
next
  case Unknown
  then show ?thesis using assms by (simp add: add_order_def entry_id_def recognized_def)
next
  case (Known sent)
  have rec: "recognized orders resp" and nid: "named_order_id orders resp = o_id sent"
    using Known by (simp_all add: recognized_def named_order_id_def)
  obtain rp' b1 where rg: "resolve_geometry env b (coord_map df (o_n sent))
      (py_or (get resp ''rp'') (get resp ''p'')) = (rp', b1)"
    by (cases "resolve_geometry env b (coord_map df (o_n sent)) (py_or (get resp ''rp'') (get resp ''p''))")
  note g = resolve_geometry_build [OF rg]
  from assms Known g show ?thesis
    unfolding add_order_def entry_id_def [symmetric] Let_def
    by (auto simp: rec nid rg split: option.splits list.splits)
qed

lemma add_order_error:
  assumes "add_order env haversine df orders tf b resp = Inl cs"
  shows "list_ex is_batch_call cs = list_ex is_batch_call (calls b)"
proof (cases "lookup_order_id (entry_id resp) orders")
  case Unhashable
  then show ?thesis using assms by (auto simp: add_order_def entry_id_def)
next
  case Unknown
  then show ?thesis using assms by (simp add: add_order_def entry_id_def)
next
  case (Known sent)
  obtain rp' b1 where rg: "resolve_geometry env b (coord_map df (o_n sent))
      (py_or (get resp ''rp'') (get resp ''p'')) = (rp', b1)"
    by (cases "resolve_geometry env b (coord_map df (o_n sent)) (py_or (get resp ''rp'') (get resp ''p''))")
  note g = resolve_geometry_build [OF rg]
  from assms Known g show ?thesis
    unfolding add_order_def entry_id_def [symmetric] Let_def
    by (auto simp: rg split: option.splits list.splits)
qed


lemma add_orders_shape:
  assumes "add_orders env haversine df orders tf b entries = Inr b'"
  shows "\<exists>sts. route_orders b' = route_orders b @ sts
     \<and> map s_f sts = replicate (length sts) 0
     \<and> map s_id sts = map (named_order_id orders) (filter (recognized orders) entries)
     \<and> map s_i sts = map (\<lambda>k. sequence_index b + 1 + int k) [0..<length sts]
     \<and> map s_vt sts = visit_times tf (last_visit_time b)
           (map (\<lambda>resp. get resp ''tm'') (filter (recognized orders) entries))
     \<and> sequence_index b' = sequence_index b + int (length sts)
     \<and> last_visit_time b' = last (last_visit_time b # map s_vt sts)
     \<and> list_ex is_batch_call (calls b') = list_ex is_batch_call (calls b)"
  using assms
proof (induction entries arbitrary: b)
  case Nil
  then show ?case by simp
next
  case (Cons resp entries)
  obtain b1 where s1: "add_order env haversine df orders tf b resp = Inr b1"
    and r1: "add_orders env haversine df orders tf b1 entries = Inr b'"
    using Cons.prems by (auto split: sum.splits)
  note st = add_order_step [OF s1]
  obtain sts where ih: "route_orders b' = route_orders b1 @ sts"
      "map s_f sts = replicate (length sts) 0"
      "map s_id sts = map (named_order_id orders) (filter (recognized orders) entries)"
      "map s_i sts = map (\<lambda>k. sequence_index b1 + 1 + int k) [0..<length sts]"
      "map s_vt sts = visit_times tf (last_visit_time b1)
           (map (\<lambda>resp. get resp ''tm'') (filter (recognized orders) entries))"
      "sequence_index b' = sequence_index b1 + int (length sts)"
      "last_visit_time b' = last (last_visit_time b1 # map s_vt sts)"
      "list_ex is_batch_call (calls b') = list_ex is_batch_call (calls b1)"
    using Cons.IH [OF r1] by blast
  show ?case
  proof (cases "recognized orders resp")
    case False
    then have "b1 = b" using st by simp
    then show ?thesis using ih False by auto
  next
    case True
    then obtain x where x: "route_orders b1 = route_orders b @ [x]" "s_f x = 0"
        "s_id x = named_order_id orders resp" "s_i x = sequence_index b + 1"
        "s_vt x = planned_time (get resp ''tm'') (last_visit_time b) tf"
        "sequence_index b1 = sequence_index b + 1"
        "last_visit_time b1 = planned_time (get resp ''tm'') (last_visit_time b) tf"
      using st by blast
    have idx: "map s_i (x # sts) = map (\<lambda>k. sequence_index b + 1 + int k) [0..<length (x # sts)]"
    proof -
      have "[0..<length (x # sts)] = 0 # map Suc [0..<length sts]"
        by (simp add: upt_conv_Cons map_Suc_upt del: upt_Suc)
      then show ?thesis using ih(4) x(4) x(6) by (simp add: comp_def del: upt_Suc)
    qed
    have "route_orders b' = route_orders b @ (x # sts)"
      using ih(1) x(1) by simp
    moreover have "map s_f (x # sts) = replicate (length (x # sts)) 0"
      using ih(2) x(2) by simp
    moreover have "map s_id (x # sts) = map (named_order_id orders) (filter (recognized orders) (resp # entries))"
      using ih(3) x(3) True by simp
    moreover have "map s_vt (x # sts) = visit_times tf (last_visit_time b)
           (map (\<lambda>resp. get resp ''tm'') (filter (recognized orders) (resp # entries)))"
      using ih(5) x(5) x(7) True by simp
    moreover have "sequence_index b' = sequence_index b + int (length (x # sts))"
      using ih(6) x(6) by simp
    moreover have "last_visit_time b' = last (last_visit_time b # map s_vt (x # sts))"
      using ih(7) x(5) x(7) by simp
    moreover have "list_ex is_batch_call (calls b') = list_ex is_batch_call (calls b)"
      using ih(8) st by simp
    ultimately show ?thesis using idx by blast
  qed
qed

lemma add_orders_error:
  assumes "add_orders env haversine df orders tf b entries = Inl cs"
  shows "list_ex is_batch_call cs = list_ex is_batch_call (calls b)"
  using assms
proof (induction entries arbitrary: b)
  case Nil
  then show ?case by simp
next
  case (Cons resp entries)
  show ?case
  proof (cases "add_order env haversine df orders tf b resp")
    case (Inl cs1)
    then show ?thesis using Cons.prems add_order_error [OF Inl] by simp
  next
    case (Inr b1)
    then have "add_orders env haversine df orders tf b1 entries = Inl cs"
      using Cons.prems by simp
    then show ?thesis using Cons.IH add_order_step [OF Inr] by simp
  qed
qed

lemma close_route_shape:
  assumes "close_route env haversine rp b = Inr b'"
  shows "\<exists>e. route_orders b' = route_orders b @ [e] \<and> s_f e = 264
     \<and> s_i e = sequence_index b + 1 \<and> s_vt e = last_visit_time b + 600
     \<and> list_ex is_batch_call (calls b') = list_ex is_batch_call (calls b)"
proof -
  obtain rp' b1 where rg: "resolve_geometry env b morl rp = (rp', b1)"
    by (cases "resolve_geometry env b morl rp")
  note g = resolve_geometry_build [OF rg]
  from assms g show ?thesis
    unfolding close_route_def Let_def
    by (auto simp: rg split: option.splits)
qed

lemma close_route_error:
  assumes "close_route env haversine rp b = Inl cs"
  shows "list_ex is_batch_call cs = list_ex is_batch_call (calls b)"
proof -
  obtain rp' b1 where rg: "resolve_geometry env b morl rp = (rp', b1)"
    by (cases "resolve_geometry env b morl rp")
  from assms show ?thesis
    unfolding close_route_def Let_def
    by (auto simp: rg split: option.splits)
qed

lemma assemble_plan_shape:
  assumes "assemble_plan env haversine df orders tf cs entries rp = Inr b"
  shows "\<exists>sts e. route_orders b = start_stop tf # sts @ [e]
     \<and> map s_f sts = replicate (length sts) 0
     \<and> map s_id sts = map (named_order_id orders) (filter (recognized orders) entries)
     \<and> map s_i sts = map (\<lambda>k. 1 + int k) [0..<length sts]
     \<and> map s_vt sts = visit_times tf tf
           (map (\<lambda>resp. get resp ''tm'') (filter (recognized orders) entries))
     \<and> s_f e = 264 \<and> s_i e = int (length sts) + 1
     \<and> s_vt e = last (tf # map s_vt sts) + 600
     \<and> list_ex is_batch_call (calls b) = list_ex is_batch_call cs"
proof -
  define b0 where "b0 = \<lparr> last_visit_time = tf, sequence_index = 0, prev_coords = morl,
               route_orders = [start_stop tf], calls = cs, osrm_count = 0 \<rparr>"
  obtain b1 where a: "add_orders env haversine df orders tf b0 entries = Inr b1"
    and c: "close_route env haversine rp b1 = Inr b"
    using assms unfolding assemble_plan_def b0_def by (auto split: sum.splits)
  obtain sts where s: "route_orders b1 = route_orders b0 @ sts"
      "map s_f sts = replicate (length sts) 0"
      "map s_id sts = map (named_order_id orders) (filter (recognized orders) entries)"
      "map s_i sts = map (\<lambda>k. sequence_index b0 + 1 + int k) [0..<length sts]"
      "map s_vt sts = visit_times tf (last_visit_time b0)
           (map (\<lambda>resp. get resp ''tm'') (filter (recognized orders) entries))"
      "sequence_index b1 = sequence_index b0 + int (length sts)"
      "last_visit_time b1 = last (last_visit_time b0 # map s_vt sts)"
      "list_ex is_batch_call (calls b1) = list_ex is_batch_call (calls b0)"
    using add_orders_shape [OF a] by blast
  obtain e where e: "route_orders b = route_orders b1 @ [e]" "s_f e = 264"
      "s_i e = sequence_index b1 + 1" "s_vt e = last_visit_time b1 + 600"
      "list_ex is_batch_call (calls b) = list_ex is_batch_call (calls b1)"
    using close_route_shape [OF c] by blast
  have "route_orders b = start_stop tf # sts @ [e]"
    using e(1) s(1) by (simp add: b0_def)
  moreover have "map s_i sts = map (\<lambda>k. 1 + int k) [0..<length sts]"
    using s(4) by (simp add: b0_def)
  moreover have "map s_vt sts = visit_times tf tf
           (map (\<lambda>resp. get resp ''tm'') (filter (recognized orders) entries))"
    using s(5) by (simp add: b0_def)
  moreover have "s_i e = int (length sts) + 1"
    using e(3) s(6) by (simp add: b0_def)
  moreover have "s_vt e = last (tf # map s_vt sts) + 600"
    using e(4) s(7) by (simp add: b0_def)
  moreover have "list_ex is_batch_call (calls b) = list_ex is_batch_call cs"
    using e(5) s(8) by (simp add: b0_def)
  ultimately show ?thesis using s(2) s(3) e(2) by blast
qed

lemma assemble_plan_error:
  assumes "assemble_plan env haversine df orders tf cs entries rp = Inl cs'"
  shows "list_ex is_batch_call cs' = list_ex is_batch_call cs"
proof -
  define b0 where "b0 = \<lparr> last_visit_time = tf, sequence_index = 0, prev_coords = morl,
               route_orders = [start_stop tf], calls = cs, osrm_count = 0 \<rparr>"
  show ?thesis
  proof (cases "add_orders env haversine df orders tf b0 entries")
    case (Inl cs1)
    then have "cs' = cs1" using assms unfolding assemble_plan_def b0_def by simp
    then show ?thesis using add_orders_error [OF Inl] by (simp add: b0_def)
  next
    case (Inr b1)
    then have "close_route env haversine rp b1 = Inl cs'"
      using assms unfolding assemble_plan_def b0_def by simp
    then have 1: "list_ex is_batch_call cs' = list_ex is_batch_call (calls b1)"
      by (rule close_route_error)
    have 2: "list_ex is_batch_call (calls b1) = list_ex is_batch_call (calls b0)"
      using add_orders_shape [OF Inr] by blast
    show ?thesis using 1 2 by (simp add: b0_def)
  qed
qed

lemma no_batch_mem: "\<not> list_ex is_batch_call cs \<Longrightarrow> BatchCall plan summ \<notin> set cs"
  by (auto simp: list_ex_iff is_batch_call_def)

lemma batch_call_assembled:
  assumes m: "BatchCall plan summ \<in> set (snd (send_orders_and_create_route env haversine unit_id df_grouped tf tt))"
  shows "\<exists>df cs rp b. presort haversine df_grouped = Some df
     \<and> assemble_plan env haversine df (submitted_orders haversine df_grouped) tf cs
          (optimized_entries env unit_id) rp = Inr b
     \<and> plan = route_orders b"
proof -
  obtain login_result where l: "login_response env = Some login_result"
    using m unfolding send_orders_and_create_route_def by (auto split: option.splits)
  have ld: "is_dict login_result" "has_key login_result ''eid''"
    using m l unfolding send_orders_and_create_route_def by (auto split: if_splits)
  obtain df where p: "presort haversine df_grouped = Some df"
    using m l ld unfolding send_orders_and_create_route_def by (auto split: option.splits)
  obtain res where o: "optimize_response env = Some res"
    using m l ld p unfolding send_orders_and_create_route_def Let_def by (auto split: option.splits)
  note S = send_after_optimize [OF l ld p o, of unit_id tf tt]
  define cs where "cs = [LoginCall, OptimizeCall (build_orders df)]"
  have nb: "\<not> list_ex is_batch_call cs"
    by (simp add: cs_def is_batch_call_def)
  have ne: "\<not> (is_dict res \<and> \<not> eq_int (get_default res ''error'' (JInt 0)) 0)"
    using m nb unfolding S Let_def cs_def [symmetric] by (auto dest: no_batch_mem split: if_splits)
  obtain oo rs rp where pv: "per_vehicle unit_id res = Some (oo, rs, rp)"
    using m nb ne unfolding S Let_def cs_def [symmetric]
    by (cases "per_vehicle unit_id res") (auto dest: no_batch_mem)
  have tr: "truthy oo"
    using m nb ne pv unfolding S Let_def cs_def [symmetric]
    by (auto dest: no_batch_mem split: if_splits)
  obtain entries where it: "iterate oo = Some entries"
    using m nb ne pv tr unfolding S Let_def cs_def [symmetric]
    by (cases "iterate oo") (auto dest: no_batch_mem)
  have oe: "optimized_entries env unit_id = entries"
    by (simp add: optimized_entries_def o pv it)
  have so: "submitted_orders haversine df_grouped = build_orders df"
    by (simp add: submitted_orders_def p)
  show ?thesis
  proof (cases "assemble_plan env haversine df (build_orders df) tf cs entries rp")
    case (Inl cs')
    have "\<not> list_ex is_batch_call cs'"
      using assemble_plan_error [OF Inl] nb by simp
    then have "BatchCall plan summ \<notin> set cs'" by (rule no_batch_mem)
    moreover have "snd (send_orders_and_create_route env haversine unit_id df_grouped tf tt) = cs'"
      unfolding S Let_def cs_def [symmetric] using ne pv tr it Inl by auto
    ultimately show ?thesis using m by simp
  next
    case (Inr b)
    have "\<not> list_ex is_batch_call (calls b)"
      using assemble_plan_shape [OF Inr] nb by blast
    then have nm: "BatchCall plan summ \<notin> set (calls b)" by (rule no_batch_mem)
    have "snd (send_orders_and_create_route env haversine unit_id df_grouped tf tt)
        = calls b @ [BatchCall (route_orders b) (plan_summary rs (route_orders b))]"
      unfolding S Let_def cs_def [symmetric] using ne pv tr it Inr
      by (auto split: option.splits)
    then have "plan = route_orders b" using m nm by auto
    then show ?thesis using p Inr oe so by auto
  qed
qed

lemma batch_call_shape:
  assumes "BatchCall plan summ \<in> set (snd (send_orders_and_create_route env haversine unit_id df_grouped tf tt))"
  shows "\<exists>sts e. plan = start_stop tf # sts @ [e]
     \<and> map s_f sts = replicate (length sts) 0
     \<and> map s_id sts = map (named_order_id (submitted_orders haversine df_grouped))
          (filter (recognized (submitted_orders haversine df_grouped)) (optimized_entries env unit_id))
     \<and> map s_i sts = map (\<lambda>k. 1 + int k) [0..<length sts]
     \<and> map s_vt sts = visit_times tf tf
           (map (\<lambda>resp. get resp ''tm'')
             (filter (recognized (submitted_orders haversine df_grouped)) (optimized_entries env unit_id)))
     \<and> s_f e = 264 \<and> s_i e = int (length sts) + 1
     \<and> s_vt e = last (tf # map s_vt sts) + 600"
proof -
  obtain df cs rp b where a: "assemble_plan env haversine df (submitted_orders haversine df_grouped) tf cs
          (optimized_entries env unit_id) rp = Inr b" and pl: "plan = route_orders b"
    using batch_call_assembled [OF assms] by blast
  show ?thesis using assemble_plan_shape [OF a] unfolding pl by blast
qed

lemma scenario_run:
  "send_orders_and_create_route scenario_remote scenario_distance 7 scenario_rows 21600 64800
     = (RouteCreated (JStr ''abc''),
        [LoginCall, OptimizeCall (build_orders scenario_rows),
         OsrmCall morl (Finite (- (2 / 5)), Finite 36),
         BatchCall scenario_plan scenario_summary])"
  by code_simp

lemma scenario_batch:
  "BatchCall scenario_plan scenario_summary
     \<in> set (snd (send_orders_and_create_route scenario_remote scenario_distance 7 scenario_rows 21600 64800))"
  unfolding scenario_run by simp

lemma length_filter_field:
  "length (filter (\<lambda>st. f st = c) xs) = length (filter (\<lambda>v. v = c) (map f xs))"
  by (induction xs) auto

lemma indices_from_zero:
  "map int [0..<n + 2] = 0 # map (\<lambda>k. 1 + int k) [0..<n] @ [int n + 1]"
proof -
  have "[0..<n + 2] = 0 # map Suc [0..<n] @ [Suc n]"
    by (simp add: upt_conv_Cons map_Suc_upt del: upt_Suc) (simp add: upt_conv_Cons [symmetric])
  then show ?thesis by (simp add: comp_def del: upt_Suc)
qed

text \<open>
  Claim C1. Every plan that \<^verbatim>\<open>send_orders_and_create_route\<close> hands to the persistence call
  has \<open>n + 2\<close> stops for some \<open>n\<close>: the first has flag 260 and sequence index 0, the last
  has flag 264 and sequence index \<open>n + 1\<close>, the \<open>n\<close> stops between them have flag 0, and
  the sequence indices are \<open>0, 1, \<dots>, n + 1\<close> in order. So the plan has exactly one stop
  with flag 260, exactly one with flag 264 and \<open>n\<close> with flag 0.
\<close>

theorem route_plan_bracketed_by_depots:
  assumes "BatchCall plan summ \<in> set (snd (send_orders_and_create_route env haversine unit_id df_grouped tf tt))"
  shows "\<exists>n. length plan = n + 2
     \<and> map s_f plan = 260 # replicate n 0 @ [264]
     \<and> map s_i plan = map int [0..<n + 2]
     \<and> length (filter (\<lambda>st. s_f st = 0) plan) = n
     \<and> length (filter (\<lambda>st. s_f st = 260) plan) = 1
     \<and> length (filter (\<lambda>st. s_f st = 264) plan) = 1
     \<and> s_f (plan ! 0) = 260 \<and> s_i (plan ! 0) = 0
     \<and> s_f (plan ! (n + 1)) = 264 \<and> s_i (plan ! (n + 1)) = int n + 1"
proof -
  obtain sts e where pl: "plan = start_stop tf # sts @ [e]"
    and f: "map s_f sts = replicate (length sts) 0"
    and i: "map s_i sts = map (\<lambda>k. 1 + int k) [0..<length sts]"
    and e: "s_f e = 264" "s_i e = int (length sts) + 1"
    using batch_call_shape [OF assms] by blast
  define n where "n = length sts"
  have fl: "map s_f plan = 260 # replicate n 0 @ [264]"
    unfolding pl using f e by (simp add: start_stop_def n_def)
  have il: "map s_i plan = map int [0..<n + 2]"
    unfolding pl indices_from_zero using i e by (simp add: start_stop_def n_def)
  have c0: "length (filter (\<lambda>st. s_f st = 0) plan) = n"
    by (simp add: length_filter_field [of s_f 0 plan] fl)
  have c260: "length (filter (\<lambda>st. s_f st = 260) plan) = 1"
    by (simp add: length_filter_field [of s_f 260 plan] fl)
  have c264: "length (filter (\<lambda>st. s_f st = 264) plan) = 1"
    by (simp add: length_filter_field [of s_f 264 plan] fl)
  have h: "s_f (plan ! 0) = 260 \<and> s_i (plan ! 0) = 0"
    unfolding pl by (simp add: start_stop_def)
  have l: "s_f (plan ! (n + 1)) = 264 \<and> s_i (plan ! (n + 1)) = int n + 1"
    unfolding pl using e by (simp add: n_def nth_append)
  have len: "length plan = n + 2" unfolding pl by (simp add: n_def)
  show ?thesis
    by (rule exI [of _ n]) (simp only: len fl il c0 c260 c264 h l simp_thms)
qed

text \<open>
  The scenario of two delivery rows with tonnages 1.0 and 2.0: the plan has 4 stops with
  flags 260, 0, 0, 264 and indices 0 to 3, and the total weight is 3000.
\<close>

theorem route_plan_witness:
  "length scenario_plan = 4
   \<and> map s_f scenario_plan = [260, 0, 0, 264]
   \<and> map s_i scenario_plan = [0, 1, 2, 3]
   \<and> sum_weight scenario_summary = 3000"
proof -
  obtain n where n: "length scenario_plan = n + 2"
    and f: "map s_f scenario_plan = 260 # replicate n 0 @ [264]"
    and i: "map s_i scenario_plan = map int [0..<n + 2]"
    using route_plan_bracketed_by_depots [OF scenario_batch] by (elim exE conjE)
  have "length scenario_plan = 4" by (simp add: scenario_plan_def)
  then have "n = 2" using n by simp
  then show ?thesis using f i n by (simp add: scenario_summary_def upt_conv_Cons eval_nat_numeral)
qed

subsection \<open>Entries of the response that name no submitted order\<close>

lemma recognized_iff:
  "recognized orders resp =
     (hashable (entry_id resp) \<and> entry_id resp \<noteq> JNull
      \<and> (\<exists>sent\<in>set orders. eq_int (entry_id resp) (o_id sent)))"
proof (cases "find (\<lambda>sent. eq_int (entry_id resp) (o_id sent)) orders")
  case None
  then have "\<forall>sent\<in>set orders. \<not> eq_int (entry_id resp) (o_id sent)"
    by (simp add: find_None_iff)
  then show ?thesis using None
    by (auto simp: recognized_def lookup_order_id_def hashable_def split: json.splits)
next
  case (Some sent)
  then have "sent \<in> set orders \<and> eq_int (entry_id resp) (o_id sent)"
    by (auto simp: find_Some_iff)
  then show ?thesis using Some
    by (auto simp: recognized_def lookup_order_id_def hashable_def eq_int_def split: json.splits)
qed

lemma recognized_named:
  assumes "recognized orders resp"
  shows "eq_int (entry_id resp) (named_order_id orders resp)
     \<and> (\<exists>sent\<in>set orders. o_id sent = named_order_id orders resp)"
proof -
  obtain sent where k: "lookup_order_id (entry_id resp) orders = Known sent"
    using assms unfolding recognized_def by (auto split: id_lookup.splits)
  then have f: "find (\<lambda>sent. eq_int (entry_id resp) (o_id sent)) orders = Some sent"
    unfolding lookup_order_id_def by (auto split: json.splits option.splits)
  then have "sent \<in> set orders \<and> eq_int (entry_id resp) (o_id sent)"
    by (auto simp: find_Some_iff)
  then show ?thesis using k by (auto simp: named_order_id_def)
qed

lemma add_order_skip:
  assumes "entry_id resp = JNull
     \<or> (hashable (entry_id resp) \<and> (\<forall>sent\<in>set orders. \<not> eq_int (entry_id resp) (o_id sent)))"
  shows "add_order env haversine df orders tf b resp = Inr b"
proof -
  have "lookup_order_id (entry_id resp) orders = Unknown"
    using assms
    by (auto simp: lookup_order_id_def hashable_def find_None_iff [THEN iffD2] split: json.splits option.splits)
  then show ?thesis by (simp add: add_order_def entry_id_def)
qed

text \<open>
  Claim C10, as amended. An entry of the optimized order list whose id is missing or null,
  or is a number, string or boolean that equals the id of no submitted order, is skipped:
  the state of the assembly is returned unchanged and no error is raised. An entry is
  recognized exactly when its id is such a value, is not null and equals the id of a
  submitted order, and then it names that order. In every plan handed to the persistence
  call, the stops with flag 0 are the stops strictly between the first and the last, and
  their ids are the ids named by the recognized entries of the response, in the order of
  the response.
\<close>

theorem unrecognized_entries_skipped:
  "(\<forall>env haversine df orders tf b resp.
       entry_id resp = JNull
       \<or> (hashable (entry_id resp) \<and> (\<forall>sent\<in>set orders. \<not> eq_int (entry_id resp) (o_id sent)))
       \<longrightarrow> add_order env haversine df orders tf b resp = Inr b)
   \<and> (\<forall>orders resp. recognized orders resp =
         (hashable (entry_id resp) \<and> entry_id resp \<noteq> JNull
          \<and> (\<exists>sent\<in>set orders. eq_int (entry_id resp) (o_id sent))))
   \<and> (\<forall>orders resp. recognized orders resp
         \<longrightarrow> eq_int (entry_id resp) (named_order_id orders resp)
           \<and> (\<exists>sent\<in>set orders. o_id sent = named_order_id orders resp))
   \<and> (\<forall>env haversine unit_id df_grouped tf tt plan summ.
         BatchCall plan summ \<in> set (snd (send_orders_and_create_route env haversine unit_id df_grouped tf tt))
         \<longrightarrow> filter (\<lambda>st. s_f st = 0) plan = butlast (tl plan)
           \<and> map s_id (butlast (tl plan))
               = map (named_order_id (submitted_orders haversine df_grouped))
                   (filter (recognized (submitted_orders haversine df_grouped))
                      (optimized_entries env unit_id)))"
proof -
  have a: "\<forall>env haversine df orders tf b resp.
       entry_id resp = JNull
       \<or> (hashable (entry_id resp) \<and> (\<forall>sent\<in>set orders. \<not> eq_int (entry_id resp) (o_id sent)))
       \<longrightarrow> add_order env haversine df orders tf b resp = Inr b"
    using add_order_skip by blast
  have b: "\<forall>orders resp. recognized orders resp =
         (hashable (entry_id resp) \<and> entry_id resp \<noteq> JNull
          \<and> (\<exists>sent\<in>set orders. eq_int (entry_id resp) (o_id sent)))"
    using recognized_iff by blast
  have c: "\<forall>orders resp. recognized orders resp
         \<longrightarrow> eq_int (entry_id resp) (named_order_id orders resp)
           \<and> (\<exists>sent\<in>set orders. o_id sent = named_order_id orders resp)"
    using recognized_named by blast
  have d: "\<forall>env haversine unit_id df_grouped tf tt plan summ.
         BatchCall plan summ \<in> set (snd (send_orders_and_create_route env haversine unit_id df_grouped tf tt))
         \<longrightarrow> filter (\<lambda>st. s_f st = 0) plan = butlast (tl plan)
           \<and> map s_id (butlast (tl plan))
               = map (named_order_id (submitted_orders haversine df_grouped))
                   (filter (recognized (submitted_orders haversine df_grouped))
                      (optimized_entries env unit_id))"
  proof (intro allI impI)
    fix env haversine unit_id df_grouped tf tt plan summ
    assume m: "BatchCall plan summ \<in> set (snd (send_orders_and_create_route env haversine unit_id df_grouped tf tt))"
    obtain sts e where pl: "plan = start_stop tf # sts @ [e]"
      and f: "map s_f sts = replicate (length sts) 0"
      and i: "map s_id sts = map (named_order_id (submitted_orders haversine df_grouped))
          (filter (recognized (submitted_orders haversine df_grouped)) (optimized_entries env unit_id))"
      and e: "s_f e = 264"
      using batch_call_shape [OF m] by blast
    have all0: "\<forall>st\<in>set sts. s_f st = 0"
    proof
      fix st assume "st \<in> set sts"
      then have "s_f st \<in> set (map s_f sts)" by simp
      then show "s_f st = 0" unfolding f by simp
    qed
    have fs: "filter (\<lambda>st. s_f st = 0) sts = sts"
      using all0 by (simp add: filter_id_conv)
    have bt: "butlast (tl plan) = sts"
      unfolding pl by simp
    have "filter (\<lambda>st. s_f st = 0) plan = sts"
      unfolding pl using fs e by (simp add: start_stop_def)
    then show "filter (\<lambda>st. s_f st = 0) plan = butlast (tl plan)
           \<and> map s_id (butlast (tl plan))
               = map (named_order_id (submitted_orders haversine df_grouped))
                   (filter (recognized (submitted_orders haversine df_grouped))
                      (optimized_entries env unit_id))"
      using bt i by simp
  qed
  from a b c d show ?thesis by (intro conjI)
qed

text \<open>
  An entry whose id is a list equals the id of no submitted order, but
  \<^verbatim>\<open>order_id not in order_id_to_name\<close> raises \<^verbatim>\<open>TypeError\<close> on it: the assembly stops
  with the generic failure and no plan is persisted, although the next entry is order 1.
\<close>

theorem unhashable_id_counterexample:
  "entry_id (JDict [(''id'', JList [JInt 1])]) = JList [JInt 1]
   \<and> \<not> recognized (build_orders scenario_rows) (JDict [(''id'', JList [JInt 1])])
   \<and> send_orders_and_create_route unhashable_remote scenario_distance 7 scenario_rows 21600 64800
     = (UnexpectedError, [LoginCall, OptimizeCall (build_orders scenario_rows)])"
  by code_simp

lemma scenario_ids:
  "map (named_order_id (submitted_orders scenario_distance scenario_rows))
     (filter (recognized (submitted_orders scenario_distance scenario_rows))
        (optimized_entries scenario_remote 7)) = [2, 1]"
  by code_simp

lemma scenario_unknown:
  "hashable (entry_id (JDict [(''id'', JInt 7), (''tm'', JInt 1100)]))
   \<and> list_all (\<lambda>sent. \<not> eq_int (entry_id (JDict [(''id'', JInt 7), (''tm'', JInt 1100)])) (o_id sent))
        (build_orders scenario_rows)"
  by code_simp

text \<open>
  In the scenario the response lists, among others, order 2, an entry with the unknown id
  7 and order 1:
  the customer stops are orders 2 and 1, and the entry with id 7 leaves the state of the
  assembly as it was.
\<close>

theorem unrecognized_entries_witness:
  "map s_id (butlast (tl scenario_plan)) = [2, 1]
   \<and> filter (\<lambda>st. s_f st = 0) scenario_plan = butlast (tl scenario_plan)
   \<and> add_order scenario_remote scenario_distance scenario_rows (build_orders scenario_rows) 21600
        \<lparr> last_visit_time = 21600, sequence_index = 0, prev_coords = morl,
          route_orders = [start_stop 21600], calls = [], osrm_count = 0 \<rparr>
        (JDict [(''id'', JInt 7), (''tm'', JInt 1100)])
      = Inr \<lparr> last_visit_time = 21600, sequence_index = 0, prev_coords = morl,
              route_orders = [start_stop 21600], calls = [], osrm_count = 0 \<rparr>"
proof -
  note T = unrecognized_entries_skipped
  have s: "add_order scenario_remote scenario_distance scenario_rows (build_orders scenario_rows) 21600
        \<lparr> last_visit_time = 21600, sequence_index = 0, prev_coords = morl,
          route_orders = [start_stop 21600], calls = [], osrm_count = 0 \<rparr>
        (JDict [(''id'', JInt 7), (''tm'', JInt 1100)])
      = Inr \<lparr> last_visit_time = 21600, sequence_index = 0, prev_coords = morl,
              route_orders = [start_stop 21600], calls = [], osrm_count = 0 \<rparr>"
    by (rule T [THEN conjunct1, rule_format]) (use scenario_unknown in \<open>simp add: list_all_iff\<close>)
  have p: "filter (\<lambda>st. s_f st = 0) scenario_plan = butlast (tl scenario_plan)
      \<and> map s_id (butlast (tl scenario_plan))
          = map (named_order_id (submitted_orders scenario_distance scenario_rows))
              (filter (recognized (submitted_orders scenario_distance scenario_rows))
                 (optimized_entries scenario_remote 7))"
    by (rule T [THEN conjunct2, THEN conjunct2, THEN conjunct2, rule_format, OF scenario_batch])
  show ?thesis using s p scenario_ids by simp
qed

subsection \<open>Visit times\<close>

lemma usable_time_iff:
  "usable_time order_tm = ((\<exists>t. order_tm = JInt t \<and> 0 < t) \<or> order_tm = JBool True)"
  by (cases order_tm) (auto simp: usable_time_def int_value_def)

lemma planned_time_usable:
  assumes "usable_time order_tm"
  shows "previous + 60 \<le> planned_time order_tm previous tf \<and> tf \<le> planned_time order_tm previous tf"
  using assms unfolding usable_time_def planned_time_def
  by (auto split: option.splits)

lemma planned_time_default:
  assumes "\<not> usable_time order_tm"
  shows "planned_time order_tm previous tf = previous + 600"
  using assms unfolding usable_time_def planned_time_def
  by (auto split: option.splits)

lemma planned_time_later: "previous < planned_time order_tm previous tf"
  using planned_time_usable [of order_tm previous tf] planned_time_default [of order_tm previous tf]
  by (cases "usable_time order_tm") auto

lemma length_visit_times: "length (visit_times tf previous tms) = length tms"
  by (induction tms arbitrary: previous) auto

lemma visit_times_nth:
  "k < length tms \<Longrightarrow>
     visit_times tf previous tms ! k
       = planned_time (tms ! k) ((previous # visit_times tf previous tms) ! k) tf"
proof (induction tms arbitrary: previous k)
  case Nil
  then show ?case by simp
next
  case (Cons tm tms)
  show ?case
  proof (cases k)
    case 0
    then show ?thesis by simp
  next
    case (Suc j)
    then have "j < length tms" using Cons.prems by simp
    then show ?thesis using Suc Cons.IH [of j "planned_time tm previous tf"] by simp
  qed
qed

lemma visit_times_after: "v \<in> set (visit_times tf previous tms) \<Longrightarrow> previous < v"
proof (induction tms arbitrary: previous)
  case Nil
  then show ?case by simp
next
  case (Cons tm tms)
  have p: "previous < planned_time tm previous tf" by (rule planned_time_later)
  show ?case
  proof (cases "v = planned_time tm previous tf")
    case True
    then show ?thesis using p by simp
  next
    case False
    then have "v \<in> set (visit_times tf (planned_time tm previous tf) tms)"
      using Cons.prems by simp
    then have "planned_time tm previous tf < v" by (rule Cons.IH)
    then show ?thesis using p by simp
  qed
qed

lemma visit_times_increasing: "sorted_wrt (<) (previous # visit_times tf previous tms)"
proof (induction tms arbitrary: previous)
  case Nil
  then show ?case by simp
next
  case (Cons tm tms)
  have "sorted_wrt (<) (planned_time tm previous tf # visit_times tf (planned_time tm previous tf) tms)"
    by (rule Cons.IH)
  moreover have "\<forall>v\<in>set (visit_times tf previous (tm # tms)). previous < v"
    using visit_times_after by blast
  ultimately show ?case by simp
qed

lemma increasing_last:
  "sorted_wrt (<) (xs :: int list) \<Longrightarrow> x \<in> set xs \<Longrightarrow> x \<le> last xs"
proof (induction xs)
  case Nil
  then show ?case by simp
next
  case (Cons a xs)
  show ?case
  proof (cases "xs = []")
    case True
    then show ?thesis using Cons.prems by simp
  next
    case False
    have l: "last xs \<in> set xs" using False by simp
    show ?thesis
    proof (cases "x = a")
      case True
      have "a < last xs" using Cons.prems(1) l by simp
      then show ?thesis using True False by simp
    next
      case neq: False
      then have "x \<in> set xs" using Cons.prems(2) by simp
      then show ?thesis using Cons.IH Cons.prems(1) False by simp
    qed
  qed
qed

lemma increasing_with_end:
  assumes "sorted_wrt (<) (vs :: int list)" and "vs \<noteq> []"
  shows "sorted_wrt (<) (vs @ [last vs + 600])"
proof -
  have "\<forall>x\<in>set vs. x < last vs + 600"
    using increasing_last [OF assms(1)] by force
  then show ?thesis using assms(1) by (simp add: sorted_wrt_append)
qed

text \<open>
  Claim C8, as amended. Take a plan handed to the persistence call and the times
  \<^verbatim>\<open>tm\<close> of the recognized entries of the response, in order. The plan has one customer
  stop for each of them, after the start depot, whose visit time is the window start, and
  before the end depot. The visit time of a customer stop is at least the visit time of
  the stop before it plus 60 and at least the window start when the time of its entry is
  usable, and is the visit time of the stop before it plus 600 when it is not. The visit
  time of the end depot is that of the stop before it plus 600. The visit times increase
  strictly along the plan. A time is usable exactly when it is a positive integer or the
  boolean \<^verbatim>\<open>true\<close>, which \<^verbatim>\<open>isinstance(order_tm, int)\<close> accepts.
\<close>

theorem visit_times_normalized:
  assumes m: "BatchCall plan summ \<in> set (snd (send_orders_and_create_route env haversine unit_id df_grouped tf tt))"
    and tms: "tms = map (\<lambda>resp. get resp ''tm'')
        (filter (recognized (submitted_orders haversine df_grouped)) (optimized_entries env unit_id))"
  shows "length plan = length tms + 2
     \<and> s_vt (plan ! 0) = tf
     \<and> (\<forall>k<length tms. s_vt (plan ! (k + 1)) = planned_time (tms ! k) (s_vt (plan ! k)) tf)
     \<and> (\<forall>k<length tms. usable_time (tms ! k)
           \<longrightarrow> s_vt (plan ! k) + 60 \<le> s_vt (plan ! (k + 1)) \<and> tf \<le> s_vt (plan ! (k + 1)))
     \<and> (\<forall>k<length tms. \<not> usable_time (tms ! k)
           \<longrightarrow> s_vt (plan ! (k + 1)) = s_vt (plan ! k) + 600)
     \<and> s_vt (plan ! (length tms + 1)) = s_vt (plan ! length tms) + 600
     \<and> sorted_wrt (<) (map s_vt plan)
     \<and> (\<forall>order_tm. usable_time order_tm
           = ((\<exists>t. order_tm = JInt t \<and> 0 < t) \<or> order_tm = JBool True))"
proof -
  obtain sts e where pl: "plan = start_stop tf # sts @ [e]"
    and v: "map s_vt sts = visit_times tf tf tms"
    and ev: "s_vt e = last (tf # map s_vt sts) + 600"
    using batch_call_shape [OF m] unfolding tms by blast
  define vs where "vs = tf # visit_times tf tf tms"
  have n: "length sts = length tms"
    using v length_visit_times [of tf tf tms] by (metis length_map)
  have vp: "map s_vt plan = vs @ [last vs + 600]"
    unfolding pl vs_def using v ev by (simp add: start_stop_def)
  have len: "length plan = length tms + 2"
    unfolding pl using n by simp
  have lvs: "length vs = length tms + 1"
    unfolding vs_def by (simp add: length_visit_times)
  have at: "\<forall>k\<le>length tms. s_vt (plan ! k) = vs ! k"
  proof (intro allI impI)
    fix k assume k: "k \<le> length tms"
    then have "k < length plan" using len by simp
    then have "s_vt (plan ! k) = map s_vt plan ! k" by simp
    also have "\<dots> = vs ! k" unfolding vp using k lvs by (simp add: nth_append)
    finally show "s_vt (plan ! k) = vs ! k" .
  qed
  have c0: "s_vt (plan ! 0) = tf"
    using at by (simp add: vs_def)
  have step: "\<forall>k<length tms. s_vt (plan ! (k + 1)) = planned_time (tms ! k) (s_vt (plan ! k)) tf"
  proof (intro allI impI)
    fix k assume k: "k < length tms"
    have "s_vt (plan ! (k + 1)) = vs ! (k + 1)" using at k by simp
    also have "\<dots> = visit_times tf tf tms ! k" by (simp add: vs_def)
    also have "\<dots> = planned_time (tms ! k) (vs ! k) tf"
      unfolding vs_def by (rule visit_times_nth [OF k])
    also have "vs ! k = s_vt (plan ! k)" using at k by simp
    finally show "s_vt (plan ! (k + 1)) = planned_time (tms ! k) (s_vt (plan ! k)) tf" .
  qed
  have us: "\<forall>k<length tms. usable_time (tms ! k)
           \<longrightarrow> s_vt (plan ! k) + 60 \<le> s_vt (plan ! (k + 1)) \<and> tf \<le> s_vt (plan ! (k + 1))"
    using step planned_time_usable by simp
  have df: "\<forall>k<length tms. \<not> usable_time (tms ! k)
           \<longrightarrow> s_vt (plan ! (k + 1)) = s_vt (plan ! k) + 600"
    using step planned_time_default by simp
  have en: "s_vt (plan ! (length tms + 1)) = s_vt (plan ! length tms) + 600"
  proof -
    have "length tms + 1 < length plan" using len by simp
    then have "s_vt (plan ! (length tms + 1)) = map s_vt plan ! (length tms + 1)" by simp
    also have "\<dots> = last vs + 600" unfolding vp using lvs by (simp add: nth_append)
    also have "last vs = vs ! length tms"
    proof -
      have "vs \<noteq> []" by (simp add: vs_def)
      then have "last vs = vs ! (length vs - 1)" by (rule last_conv_nth)
      then show ?thesis using lvs by simp
    qed
    also have "\<dots> = s_vt (plan ! length tms)" using at by simp
    finally show ?thesis .
  qed
  have inc: "sorted_wrt (<) (map s_vt plan)"
    unfolding vp using increasing_with_end [of vs] visit_times_increasing [of tf tf tms]
    by (simp add: vs_def)
  have ch: "\<forall>order_tm. usable_time order_tm
           = ((\<exists>t. order_tm = JInt t \<and> 0 < t) \<or> order_tm = JBool True)"
    using usable_time_iff by blast
  from len c0 step us df en inc ch show ?thesis by (intro conjI)
qed

text \<open>
  The optimizer returns order 1 with the time \<^verbatim>\<open>true\<close>, which is no positive integer: the
  visit time of the stop is the previous visit time plus 60, not plus 600.
\<close>

theorem boolean_time_counterexample:
  "optimized_entries boolean_time_remote 7 = [JDict [(''id'', JInt 1), (''tm'', JBool True)]]
   \<and> map (map s_vt)
        (batched_plans (snd (send_orders_and_create_route boolean_time_remote scenario_distance 7
           scenario_rows 21600 64800)))
      = [[21600, 21660, 22260]]"
  by code_simp

lemma scenario_times:
  "map (\<lambda>resp. get resp ''tm'')
     (filter (recognized (submitted_orders scenario_distance scenario_rows))
        (optimized_entries scenario_remote 7)) = [JInt 1000, JNull]"
  by code_simp

text \<open>
  In the scenario order 2 comes with the time 1000 and order 1 with none: the visit times
  are 21600, 21660, 22260 and 22860.
\<close>

theorem visit_times_witness:
  "map s_vt scenario_plan = [21600, 21660, 22260, 22860]
   \<and> s_vt (scenario_plan ! 1) = planned_time (JInt 1000) 21600 21600
   \<and> usable_time (JInt 1000) \<and> \<not> usable_time JNull
   \<and> s_vt (scenario_plan ! 2) = s_vt (scenario_plan ! 1) + 600
   \<and> s_vt (scenario_plan ! 3) = s_vt (scenario_plan ! 2) + 600"
proof -
  note T = visit_times_normalized [OF scenario_batch scenario_times [symmetric]]
  note c0 = T [THEN conjunct2, THEN conjunct1]
  note st = T [THEN conjunct2, THEN conjunct2, THEN conjunct1, rule_format]
  note df = T [THEN conjunct2, THEN conjunct2, THEN conjunct2, THEN conjunct2, THEN conjunct1,
    rule_format]
  note en = T [THEN conjunct2, THEN conjunct2, THEN conjunct2, THEN conjunct2, THEN conjunct2,
    THEN conjunct1]
  note ch = T [THEN conjunct2, THEN conjunct2, THEN conjunct2, THEN conjunct2, THEN conjunct2,
    THEN conjunct2, THEN conjunct2, rule_format]
  have u1: "usable_time (JInt 1000)" using ch [of "JInt 1000"] by simp
  have u2: "\<not> usable_time JNull" using ch [of JNull] by simp
  have s1: "s_vt (scenario_plan ! 1) = planned_time (JInt 1000) 21600 21600"
    using st [of 0] c0 by simp
  have s2: "s_vt (scenario_plan ! 2) = s_vt (scenario_plan ! 1) + 600"
    using df [of 1] u2 by (simp add: eval_nat_numeral)
  have s3: "s_vt (scenario_plan ! 3) = s_vt (scenario_plan ! 2) + 600"
    using en by (simp add: eval_nat_numeral)
  have m: "map s_vt scenario_plan = [21600, 21660, 22260, 22860]"
    by (simp add: scenario_plan_def)
  from m s1 u1 u2 s2 s3 show ?thesis by (intro conjI)
qed

end
